theory Spec2Isabelle
  imports Complex_Main "HOL-Library.AList" "HOL-Library.Char_ord" "HOL-Library.List_Lexorder"
begin

section \<open>JavaScript runtime values used by the storage backends\<close>

text \<open>
  A JavaScript \<open>Map<string, V>\<close> keeps its entries in insertion order: \<open>set\<close> on a key
  that is present replaces the value in place, \<open>set\<close> on a new key appends, \<open>get\<close>
  returns the value of the key and \<open>values()\<close> iterates in insertion order. It is
  modelled as an association list with \<open>map_of\<close> and \<open>AList.update\<close>.
\<close>

type_synonym 'v jsmap = "(string \<times> 'v) list"

definition map_get :: "'v jsmap \<Rightarrow> string \<Rightarrow> 'v option" where
  "map_get m k = map_of m k"

definition map_set :: "'v jsmap \<Rightarrow> string \<Rightarrow> 'v \<Rightarrow> 'v jsmap" where
  "map_set m k v = AList.update k v m"

definition map_values :: "'v jsmap \<Rightarrow> 'v list" where
  "map_values m = map snd m"

text \<open>\<open>Array.prototype.find\<close>: the first element satisfying the predicate, or undefined.\<close>

definition array_find :: "('a \<Rightarrow> bool) \<Rightarrow> 'a list \<Rightarrow> 'a option" where
  "array_find p xs = List.find p xs"

text \<open>
  \<open>Number.prototype.toString(radix)\<close> on a non-negative integer, \<open>padStart\<close>, and
  \<open>toLowerCase\<close>. The characters of the model are bytes, and \<open>toLowerCase\<close> folds the
  ASCII letters \<open>A\<close> to \<open>Z\<close> only: it agrees with JavaScript on ASCII strings, and leaves
  the other letters, which JavaScript folds too, as they are.
\<close>

definition digit_char :: "nat \<Rightarrow> char" where
  "digit_char d = ''0123456789abcdefghijklmnopqrstuvwxyz'' ! d"

function toStringRadix :: "nat \<Rightarrow> nat \<Rightarrow> string" where
  "toStringRadix b n =
     (if n < b \<or> b < 2 then [digit_char n]
      else toStringRadix b (n div b) @ [digit_char (n mod b)])"
  by pat_completeness auto
termination
  by (relation "measure (\<lambda>(b, n). n)") auto

declare toStringRadix.simps [simp del]

definition padStart :: "nat \<Rightarrow> char \<Rightarrow> string \<Rightarrow> string" where
  "padStart k c s = replicate (k - length s) c @ s"

definition lower_char :: "char \<Rightarrow> char" where
  "lower_char c =
     (if CHR ''A'' \<le> c \<and> c \<le> CHR ''Z'' then char_of (of_char c + (32::nat)) else c)"

definition toLowerCase :: "string \<Rightarrow> string" where
  "toLowerCase s = map lower_char s"

text \<open>
  The clock and the random generator are the environment of a backend. The \<open>k\<close>-th
  reading of \<open>Date.now()\<close> (milliseconds since the epoch) is \<open>date_src k\<close>, the \<open>k\<close>-th
  value of \<open>Math.random()\<close> is \<open>rand_src k\<close>; the counters say how many readings were
  taken. \<open>new Date()\<close> reads the clock once.
\<close>

record runtime =
  date_src :: "nat \<Rightarrow> nat"
  date_cnt :: nat
  rand_src :: "nat \<Rightarrow> real"
  rand_cnt :: nat

type_synonym date = nat

definition Date_now :: "runtime \<Rightarrow> date \<times> runtime" where
  "Date_now r = (date_src r (date_cnt r), r\<lparr>date_cnt := Suc (date_cnt r)\<rparr>)"

definition Math_random :: "runtime \<Rightarrow> real \<times> runtime" where
  "Math_random r = (rand_src r (rand_cnt r), r\<lparr>rand_cnt := Suc (rand_cnt r)\<rparr>)"

text \<open>\<open>Math.random()\<close> returns a value in the half-open interval from 0 to 1.\<close>

definition random_ok :: "runtime \<Rightarrow> bool" where
  "random_ok r = (\<forall>k. 0 \<le> rand_src r k \<and> rand_src r k < 1)"

text \<open>A clock that never runs backwards from one reading to the next.\<close>

definition clock_ok :: "runtime \<Rightarrow> bool" where
  "clock_ok r = (\<forall>k. date_src r k \<le> date_src r (Suc k))"

section \<open>Identifiers\<close>

text \<open>Hexadecimal digits, of either case and of lower case only.\<close>

definition is_hex_char :: "char \<Rightarrow> bool" where
  "is_hex_char c = (c \<in> set ''0123456789abcdefABCDEF'')"

definition is_lower_hex_char :: "char \<Rightarrow> bool" where
  "is_lower_hex_char c = (c \<in> set ''0123456789abcdef'')"

text \<open>
  Modelled from the spec: \<open>isValidObjectId\<close> is imported from the shared schema module,
  which is not among the sources. The spec describes the format of an id as 24
  hexadecimal characters.
\<close>

definition isValidObjectId :: "string \<Rightarrow> bool" where
  "isValidObjectId s = (length s = 24 \<and> list_all is_hex_char s)"

text \<open>\<open>FileStorage.generateObjectId\<close>: one clock reading and three random values.\<close>

definition generateObjectId :: "runtime \<Rightarrow> string \<times> runtime" where
  "generateObjectId r0 =
     (let (now, r1) = Date_now r0;
          timestamp = padStart 8 CHR ''0'' (toStringRadix 16 (now div 1000));
          (x1, r2) = Math_random r1;
          machineId = padStart 6 CHR ''0'' (toStringRadix 16 (nat \<lfloor>x1 * 16777215\<rfloor>));
          (x2, r3) = Math_random r2;
          processId = padStart 4 CHR ''0'' (toStringRadix 16 (nat \<lfloor>x2 * 65535\<rfloor>));
          (x3, r4) = Math_random r3;
          counter = padStart 6 CHR ''0'' (toStringRadix 16 (nat \<lfloor>x3 * 16777215\<rfloor>))
      in (timestamp @ machineId @ processId @ counter, r4))"

text \<open>\<open>MemStorage.generateId\<close>: a prefix, an underscore and the decimal counter.\<close>

definition generateId :: "string \<Rightarrow> nat \<Rightarrow> string" where
  "generateId prefix counter = prefix @ ''_'' @ padStart 6 CHR ''0'' (toStringRadix 10 counter)"

text \<open>
  The hexadecimal numeral of a fixed width, least significant digit last: what
  \<open>padStart k "0"\<close> gives on \<open>toString(16)\<close> of a number below \<open>16 ^ k\<close>. It serves to
  state and prove the format of the generated ids.
\<close>

fun fixhex :: "nat \<Rightarrow> nat \<Rightarrow> string" where
  "fixhex 0 n = []"
| "fixhex (Suc k) n = fixhex k (n div 16) @ [digit_char (n mod 16)]"

text \<open>
  A JavaScript string is falsy exactly when it is empty; an optional string that is
  undefined or empty takes the other branch of \<open>x ? x.toString() : undefined\<close> and of
  \<open>x || d\<close>.
\<close>

definition truthy :: "string option \<Rightarrow> bool" where
  "truthy x = (case x of None \<Rightarrow> False | Some v \<Rightarrow> v \<noteq> [])"

definition toString_or_undefined :: "string option \<Rightarrow> string option" where
  "toString_or_undefined x = (if truthy x then x else None)"

definition or_default :: "string option \<Rightarrow> string \<Rightarrow> string" where
  "or_default x d = (case x of None \<Rightarrow> d | Some v \<Rightarrow> if v = [] then d else v)"

text \<open>\<open>throw new Error(message)\<close>.\<close>

datatype error = Error string

section \<open>Entities\<close>

datatype role = Supervisor | Field

text \<open>
  A GeoJSON geometry \<open>{type, coordinates}\<close>; a position is the pair of its two
  numbers, longitude first.
\<close>

datatype geometry =
    Point "real \<times> real"
  | LineString "(real \<times> real) list"
  | Polygon "(real \<times> real) list list"

record InsertUser =
  iu_username :: string
  iu_password :: string
  iu_name :: string
  iu_email :: string
  iu_role :: role
  iu_teamId :: "string option"

record FileUser =
  u_id :: string
  u_username :: string
  u_password :: string
  u_name :: string
  u_email :: string
  u_role :: role
  u_teamId :: "string option"
  u_lastActive :: "date option"
  u_currentLocation :: "geometry option"
  u_createdAt :: date
  u_updatedAt :: date

record InsertTeam =
  itm_name :: string
  itm_description :: "string option"
  itm_status :: "string option"
  itm_createdBy :: string

record FileTeam =
  tm_id :: string
  tm_name :: string
  tm_description :: "string option"
  tm_status :: string
  tm_createdBy :: string
  tm_approvedBy :: "string option"
  tm_createdAt :: date
  tm_updatedAt :: date

record InsertTask =
  it_title :: string
  it_description :: "string option"
  it_status :: "string option"
  it_priority :: string
  it_createdBy :: "string option"
  it_assignedTo :: "string option"
  it_dueDate :: "date option"
  it_location :: "(real \<times> real) option"
  it_boundaryId :: "string option"
  it_featureId :: "string option"

record FileTask =
  t_id :: string
  t_title :: string
  t_description :: "string option"
  t_status :: string
  t_priority :: string
  t_createdBy :: "string option"
  t_assignedTo :: "string option"
  t_dueDate :: "date option"
  t_location :: "geometry option"
  t_boundaryId :: "string option"
  t_featureId :: "string option"
  t_createdAt :: date
  t_updatedAt :: date

record InsertFeature =
  if_name :: string
  if_feaNo :: string
  if_feaState :: string
  if_feaStatus :: string
  if_feaType :: string
  if_specificType :: string
  if_maintenance :: "string option"
  if_maintenanceDate :: "date option"
  if_geometry :: "geometry option"
  if_remarks :: "string option"
  if_createdBy :: "string option"
  if_boundaryId :: "string option"

record FileFeature =
  f_id :: string
  f_name :: string
  f_feaNo :: string
  f_feaState :: string
  f_feaStatus :: string
  f_feaType :: string
  f_specificType :: string
  f_maintenance :: string
  f_maintenanceDate :: "date option"
  f_geometry :: "geometry option"
  f_remarks :: "string option"
  f_createdBy :: "string option"
  f_boundaryId :: "string option"
  f_createdAt :: date
  f_updatedAt :: date
  f_lastUpdated :: date

record InsertBoundary =
  ib_name :: string
  ib_description :: "string option"
  ib_status :: "string option"
  ib_assignedTo :: "string option"
  ib_geometry :: "(real \<times> real) list list"

record FileBoundary =
  b_id :: string
  b_name :: string
  b_description :: "string option"
  b_status :: string
  b_assignedTo :: "string option"
  b_geometry :: geometry
  b_createdAt :: date
  b_updatedAt :: date

record InsertTaskUpdate =
  itu_taskId :: string
  itu_userId :: string
  itu_comment :: "string option"
  itu_oldStatus :: "string option"
  itu_newStatus :: "string option"

record FileTaskUpdate =
  tu_id :: string
  tu_taskId :: string
  tu_userId :: string
  tu_comment :: "string option"
  tu_oldStatus :: "string option"
  tu_newStatus :: "string option"
  tu_createdAt :: date

section \<open>The file backend\<close>

text \<open>
  The collections of \<open>FileStorage\<close> and its environment. Every mutating method ends by
  writing the whole collection to its JSON file and swallows a write error; the files
  are not part of the in-memory state modelled here.

  A method that can throw returns its outcome (\<open>Inl\<close> the error) together with the
  state at that moment; a method that reads only is a function of the state.
\<close>

record FileStorage =
  fs_users :: "FileUser jsmap"
  fs_tasks :: "FileTask jsmap"
  fs_features :: "FileFeature jsmap"
  fs_boundaries :: "FileBoundary jsmap"
  fs_taskUpdates :: "FileTaskUpdate jsmap"
  fs_teams :: "FileTeam jsmap"
  fs_rt :: runtime

subsection \<open>User operations\<close>

definition FileStorage_getUser :: "FileStorage \<Rightarrow> string \<Rightarrow> FileUser option" where
  "FileStorage_getUser s oid =
     (if \<not> isValidObjectId oid then None else map_get (fs_users s) oid)"

definition FileStorage_getUserByUsername :: "FileStorage \<Rightarrow> string \<Rightarrow> FileUser option" where
  "FileStorage_getUserByUsername s username =
     array_find (\<lambda>user. u_username user = username) (map_values (fs_users s))"

definition FileStorage_createUser :: "FileStorage \<Rightarrow> InsertUser \<Rightarrow> FileUser \<times> FileStorage" where
  "FileStorage_createUser s insertUser =
     (let (oid, r1) = generateObjectId (fs_rt s);
          (created, r2) = Date_now r1;
          (updated, r3) = Date_now r2;
          user = \<lparr>u_id = oid,
                  u_username = iu_username insertUser,
                  u_password = iu_password insertUser,
                  u_name = iu_name insertUser,
                  u_email = iu_email insertUser,
                  u_role = iu_role insertUser,
                  u_teamId = toString_or_undefined (iu_teamId insertUser),
                  u_lastActive = None,
                  u_currentLocation = None,
                  u_createdAt = created,
                  u_updatedAt = updated\<rparr>
      in (user, s\<lparr>fs_users := map_set (fs_users s) oid user, fs_rt := r3\<rparr>))"

definition FileStorage_updateUserLocation ::
  "FileStorage \<Rightarrow> string \<Rightarrow> real \<Rightarrow> real \<Rightarrow> (error + FileUser) \<times> FileStorage" where
  "FileStorage_updateUserLocation s oid lat lng =
     (if \<not> isValidObjectId oid then (Inl (Error ''Invalid user ID''), s)
      else case map_get (fs_users s) oid of
        None \<Rightarrow> (Inl (Error (''User with id '' @ oid @ '' not found'')), s)
      | Some user \<Rightarrow>
          (let user1 = user\<lparr>u_currentLocation := Some (Point (lng, lat))\<rparr>;
               (active, r1) = Date_now (fs_rt s);
               user2 = user1\<lparr>u_lastActive := Some active\<rparr>;
               (updated, r2) = Date_now r1;
               user3 = user2\<lparr>u_updatedAt := updated\<rparr>
           in (Inr user3, s\<lparr>fs_users := map_set (fs_users s) oid user3, fs_rt := r2\<rparr>)))"

subsection \<open>Team operations\<close>

definition FileStorage_createTeam :: "FileStorage \<Rightarrow> InsertTeam \<Rightarrow> FileTeam \<times> FileStorage" where
  "FileStorage_createTeam s insertTeam =
     (let (oid, r1) = generateObjectId (fs_rt s);
          (created, r2) = Date_now r1;
          (updated, r3) = Date_now r2;
          team = \<lparr>tm_id = oid,
                  tm_name = itm_name insertTeam,
                  tm_description = itm_description insertTeam,
                  tm_status = or_default (itm_status insertTeam) ''Pending'',
                  tm_createdBy = itm_createdBy insertTeam,
                  tm_approvedBy = None,
                  tm_createdAt = created,
                  tm_updatedAt = updated\<rparr>
      in (team, s\<lparr>fs_teams := map_set (fs_teams s) oid team, fs_rt := r3\<rparr>))"

definition FileStorage_getTeam :: "FileStorage \<Rightarrow> string \<Rightarrow> FileTeam option" where
  "FileStorage_getTeam s oid =
     (if \<not> isValidObjectId oid then None else map_get (fs_teams s) oid)"

definition FileStorage_assignUserToTeam ::
  "FileStorage \<Rightarrow> string \<Rightarrow> string \<Rightarrow> (error + FileUser) \<times> FileStorage" where
  "FileStorage_assignUserToTeam s userId teamId =
     (if \<not> isValidObjectId userId \<or> \<not> isValidObjectId teamId
      then (Inl (Error ''Invalid user or team ID''), s)
      else case map_get (fs_users s) userId of
        None \<Rightarrow> (Inl (Error (''User with id '' @ userId @ '' not found'')), s)
      | Some user \<Rightarrow>
          (let user1 = user\<lparr>u_teamId := Some teamId\<rparr>;
               (updated, r1) = Date_now (fs_rt s);
               user2 = user1\<lparr>u_updatedAt := updated\<rparr>
           in (Inr user2, s\<lparr>fs_users := map_set (fs_users s) userId user2, fs_rt := r1\<rparr>)))"

subsection \<open>Task operations\<close>

definition FileStorage_createTask :: "FileStorage \<Rightarrow> InsertTask \<Rightarrow> FileTask \<times> FileStorage" where
  "FileStorage_createTask s insertTask =
     (let (oid, r1) = generateObjectId (fs_rt s);
          (created, r2) = Date_now r1;
          (updated, r3) = Date_now r2;
          task = \<lparr>t_id = oid,
                  t_title = it_title insertTask,
                  t_description = it_description insertTask,
                  t_status = or_default (it_status insertTask) ''Unassigned'',
                  t_priority = it_priority insertTask,
                  t_createdBy = toString_or_undefined (it_createdBy insertTask),
                  t_assignedTo = toString_or_undefined (it_assignedTo insertTask),
                  t_dueDate = it_dueDate insertTask,
                  t_location = (case it_location insertTask of
                                  None \<Rightarrow> None | Some c \<Rightarrow> Some (Point c)),
                  t_boundaryId = toString_or_undefined (it_boundaryId insertTask),
                  t_featureId = toString_or_undefined (it_featureId insertTask),
                  t_createdAt = created,
                  t_updatedAt = updated\<rparr>
      in (task, s\<lparr>fs_tasks := map_set (fs_tasks s) oid task, fs_rt := r3\<rparr>))"

definition FileStorage_getTask :: "FileStorage \<Rightarrow> string \<Rightarrow> FileTask option" where
  "FileStorage_getTask s oid =
     (if \<not> isValidObjectId oid then None else map_get (fs_tasks s) oid)"

definition FileStorage_createTaskUpdate ::
  "FileStorage \<Rightarrow> InsertTaskUpdate \<Rightarrow> (error + FileTaskUpdate) \<times> FileStorage" where
  "FileStorage_createTaskUpdate s insertUpdate =
     (if \<not> isValidObjectId (itu_taskId insertUpdate) \<or> \<not> isValidObjectId (itu_userId insertUpdate)
      then (Inl (Error ''Invalid task or user ID''), s)
      else
        (let (oid, r1) = generateObjectId (fs_rt s);
             (created, r2) = Date_now r1;
             update = \<lparr>tu_id = oid,
                       tu_taskId = itu_taskId insertUpdate,
                       tu_userId = itu_userId insertUpdate,
                       tu_comment = itu_comment insertUpdate,
                       tu_oldStatus = itu_oldStatus insertUpdate,
                       tu_newStatus = itu_newStatus insertUpdate,
                       tu_createdAt = created\<rparr>
         in (Inr update, s\<lparr>fs_taskUpdates := map_set (fs_taskUpdates s) oid update, fs_rt := r2\<rparr>)))"

definition FileStorage_updateTaskStatus ::
  "FileStorage \<Rightarrow> string \<Rightarrow> string \<Rightarrow> string \<Rightarrow> (error + FileTask) \<times> FileStorage" where
  "FileStorage_updateTaskStatus s oid status userId =
     (if \<not> isValidObjectId oid \<or> \<not> isValidObjectId userId
      then (Inl (Error ''Invalid task or user ID''), s)
      else case map_get (fs_tasks s) oid of
        None \<Rightarrow> (Inl (Error (''Task with id '' @ oid @ '' not found'')), s)
      | Some task \<Rightarrow>
          (let oldStatus = t_status task;
               task1 = task\<lparr>t_status := status\<rparr>;
               (updated, r1) = Date_now (fs_rt s);
               task2 = task1\<lparr>t_updatedAt := updated\<rparr>;
               s1 = s\<lparr>fs_tasks := map_set (fs_tasks s) oid task2, fs_rt := r1\<rparr>;
               (created, s2) = FileStorage_createTaskUpdate s1
                  \<lparr>itu_taskId = oid,
                   itu_userId = userId,
                   itu_comment = Some (''Status updated to '' @ status),
                   itu_oldStatus = Some oldStatus,
                   itu_newStatus = Some status\<rparr>
           in case created of
                Inl e \<Rightarrow> (Inl e, s2)
              | Inr u \<Rightarrow> (Inr task2, s2)))"

definition FileStorage_assignTask ::
  "FileStorage \<Rightarrow> string \<Rightarrow> string \<Rightarrow> (error + FileTask) \<times> FileStorage" where
  "FileStorage_assignTask s oid assignedTo =
     (if \<not> isValidObjectId oid \<or> \<not> isValidObjectId assignedTo
      then (Inl (Error ''Invalid task or user ID''), s)
      else case map_get (fs_tasks s) oid of
        None \<Rightarrow> (Inl (Error (''Task with id '' @ oid @ '' not found'')), s)
      | Some task \<Rightarrow>
          (let task1 = task\<lparr>t_assignedTo := Some assignedTo\<rparr>;
               task2 = task1\<lparr>t_status := ''Assigned''\<rparr>;
               (updated, r1) = Date_now (fs_rt s);
               task3 = task2\<lparr>t_updatedAt := updated\<rparr>
           in (Inr task3, s\<lparr>fs_tasks := map_set (fs_tasks s) oid task3, fs_rt := r1\<rparr>)))"

subsection \<open>Feature and boundary operations\<close>

definition FileStorage_createFeature ::
  "FileStorage \<Rightarrow> InsertFeature \<Rightarrow> FileFeature \<times> FileStorage" where
  "FileStorage_createFeature s insertFeature =
     (let (oid, r1) = generateObjectId (fs_rt s);
          geometry = (case if_geometry insertFeature of
                        None \<Rightarrow> None
                      | Some (Point c) \<Rightarrow> Some (Point c)
                      | Some (LineString cs) \<Rightarrow> Some (LineString cs)
                      | Some (Polygon rs) \<Rightarrow> Some (Polygon rs));
          (created, r2) = Date_now r1;
          (updated, r3) = Date_now r2;
          (lastUpdated, r4) = Date_now r3;
          feature = \<lparr>f_id = oid,
                     f_name = if_name insertFeature,
                     f_feaNo = if_feaNo insertFeature,
                     f_feaState = if_feaState insertFeature,
                     f_feaStatus = if_feaStatus insertFeature,
                     f_feaType = if_feaType insertFeature,
                     f_specificType = if_specificType insertFeature,
                     f_maintenance = or_default (if_maintenance insertFeature) ''None'',
                     f_maintenanceDate = if_maintenanceDate insertFeature,
                     f_geometry = geometry,
                     f_remarks = if_remarks insertFeature,
                     f_createdBy = toString_or_undefined (if_createdBy insertFeature),
                     f_boundaryId = toString_or_undefined (if_boundaryId insertFeature),
                     f_createdAt = created,
                     f_updatedAt = updated,
                     f_lastUpdated = lastUpdated\<rparr>
      in (feature, s\<lparr>fs_features := map_set (fs_features s) oid feature, fs_rt := r4\<rparr>))"

definition FileStorage_getFeature :: "FileStorage \<Rightarrow> string \<Rightarrow> FileFeature option" where
  "FileStorage_getFeature s oid =
     (if \<not> isValidObjectId oid then None else map_get (fs_features s) oid)"

definition FileStorage_createBoundary ::
  "FileStorage \<Rightarrow> InsertBoundary \<Rightarrow> FileBoundary \<times> FileStorage" where
  "FileStorage_createBoundary s insertBoundary =
     (let (oid, r1) = generateObjectId (fs_rt s);
          (created, r2) = Date_now r1;
          (updated, r3) = Date_now r2;
          boundary = \<lparr>b_id = oid,
                      b_name = ib_name insertBoundary,
                      b_description = ib_description insertBoundary,
                      b_status = or_default (ib_status insertBoundary) ''New'',
                      b_assignedTo = toString_or_undefined (ib_assignedTo insertBoundary),
                      b_geometry = Polygon (ib_geometry insertBoundary),
                      b_createdAt = created,
                      b_updatedAt = updated\<rparr>
      in (boundary, s\<lparr>fs_boundaries := map_set (fs_boundaries s) oid boundary, fs_rt := r3\<rparr>))"

definition FileStorage_getBoundary :: "FileStorage \<Rightarrow> string \<Rightarrow> FileBoundary option" where
  "FileStorage_getBoundary s oid =
     (if \<not> isValidObjectId oid then None else map_get (fs_boundaries s) oid)"

section \<open>The in-memory backend\<close>

text \<open>
  \<open>MemStorage\<close> builds an entity by spreading the insert input between its id and its
  timestamps, so an optional field of the input stays optional in the entity. Its
  methods mutate the object held by the map in place. The collections of users, teams,
  tasks and task updates are modelled, with their id counters.
\<close>

record IUser =
  mu_id :: string
  mu_username :: string
  mu_password :: string
  mu_name :: string
  mu_email :: string
  mu_role :: role
  mu_teamId :: "string option"
  mu_createdAt :: date
  mu_updatedAt :: date
  mu_lastActive :: "date option"
  mu_currentLocation :: "geometry option"

record ITeam =
  mtm_id :: string
  mtm_name :: string
  mtm_description :: "string option"
  mtm_status :: "string option"
  mtm_createdBy :: string
  mtm_createdAt :: date
  mtm_updatedAt :: date
  mtm_approvedBy :: "string option"

record ITask =
  mt_id :: string
  mt_title :: string
  mt_description :: "string option"
  mt_status :: "string option"
  mt_priority :: string
  mt_createdBy :: "string option"
  mt_assignedTo :: "string option"
  mt_dueDate :: "date option"
  mt_location :: "(real \<times> real) option"
  mt_boundaryId :: "string option"
  mt_featureId :: "string option"
  mt_createdAt :: date
  mt_updatedAt :: date

record ITaskUpdate =
  mtu_id :: string
  mtu_taskId :: string
  mtu_userId :: string
  mtu_comment :: "string option"
  mtu_oldStatus :: "string option"
  mtu_newStatus :: "string option"
  mtu_createdAt :: date

record MemStorage =
  ms_users :: "IUser jsmap"
  ms_teams :: "ITeam jsmap"
  ms_tasks :: "ITask jsmap"
  ms_taskUpdates :: "ITaskUpdate jsmap"
  userCurrentId :: nat
  teamCurrentId :: nat
  taskCurrentId :: nat
  taskUpdateCurrentId :: nat
  ms_rt :: runtime

definition MemStorage_init :: "runtime \<Rightarrow> MemStorage" where
  "MemStorage_init r =
     \<lparr>ms_users = [], ms_teams = [], ms_tasks = [], ms_taskUpdates = [],
      userCurrentId = 1, teamCurrentId = 1, taskCurrentId = 1, taskUpdateCurrentId = 1,
      ms_rt = r\<rparr>"

definition MemStorage_getUser :: "MemStorage \<Rightarrow> string \<Rightarrow> IUser option" where
  "MemStorage_getUser s oid = map_get (ms_users s) oid"

definition MemStorage_getUserByUsername :: "MemStorage \<Rightarrow> string \<Rightarrow> IUser option" where
  "MemStorage_getUserByUsername s username =
     array_find (\<lambda>user. toLowerCase (mu_username user) = toLowerCase username)
       (map_values (ms_users s))"

definition MemStorage_createUser :: "MemStorage \<Rightarrow> InsertUser \<Rightarrow> IUser \<times> MemStorage" where
  "MemStorage_createUser s insertUser =
     (let oid = generateId ''user'' (userCurrentId s);
          s1 = s\<lparr>userCurrentId := userCurrentId s + 1\<rparr>;
          (created, r1) = Date_now (ms_rt s1);
          (updated, r2) = Date_now r1;
          user = \<lparr>mu_id = oid,
                  mu_username = iu_username insertUser,
                  mu_password = iu_password insertUser,
                  mu_name = iu_name insertUser,
                  mu_email = iu_email insertUser,
                  mu_role = iu_role insertUser,
                  mu_teamId = iu_teamId insertUser,
                  mu_createdAt = created,
                  mu_updatedAt = updated,
                  mu_lastActive = None,
                  mu_currentLocation = None\<rparr>
      in (user, s1\<lparr>ms_users := map_set (ms_users s1) oid user, ms_rt := r2\<rparr>))"

definition MemStorage_createTeam :: "MemStorage \<Rightarrow> InsertTeam \<Rightarrow> ITeam \<times> MemStorage" where
  "MemStorage_createTeam s insertTeam =
     (let oid = generateId ''team'' (teamCurrentId s);
          s1 = s\<lparr>teamCurrentId := teamCurrentId s + 1\<rparr>;
          (created, r1) = Date_now (ms_rt s1);
          (updated, r2) = Date_now r1;
          team = \<lparr>mtm_id = oid,
                  mtm_name = itm_name insertTeam,
                  mtm_description = itm_description insertTeam,
                  mtm_status = itm_status insertTeam,
                  mtm_createdBy = itm_createdBy insertTeam,
                  mtm_createdAt = created,
                  mtm_updatedAt = updated,
                  mtm_approvedBy = None\<rparr>
      in (team, s1\<lparr>ms_teams := map_set (ms_teams s1) oid team, ms_rt := r2\<rparr>))"

definition MemStorage_getTeam :: "MemStorage \<Rightarrow> string \<Rightarrow> ITeam option" where
  "MemStorage_getTeam s oid = map_get (ms_teams s) oid"

definition MemStorage_assignUserToTeam ::
  "MemStorage \<Rightarrow> string \<Rightarrow> string \<Rightarrow> (error + IUser) \<times> MemStorage" where
  "MemStorage_assignUserToTeam s userId teamId =
     (case MemStorage_getUser s userId of
        None \<Rightarrow> (Inl (Error (''User with ID '' @ userId @ '' not found'')), s)
      | Some user \<Rightarrow>
          (case MemStorage_getTeam s teamId of
             None \<Rightarrow> (Inl (Error (''Team with ID '' @ teamId @ '' not found'')), s)
           | Some team \<Rightarrow>
               (let user1 = user\<lparr>mu_teamId := Some teamId\<rparr>;
                    (updated, r1) = Date_now (ms_rt s);
                    user2 = user1\<lparr>mu_updatedAt := updated\<rparr>
                in (Inr user2, s\<lparr>ms_users := map_set (ms_users s) userId user2, ms_rt := r1\<rparr>))))"

definition MemStorage_createTask :: "MemStorage \<Rightarrow> InsertTask \<Rightarrow> ITask \<times> MemStorage" where
  "MemStorage_createTask s insertTask =
     (let oid = generateId ''task'' (taskCurrentId s);
          s1 = s\<lparr>taskCurrentId := taskCurrentId s + 1\<rparr>;
          (created, r1) = Date_now (ms_rt s1);
          (updated, r2) = Date_now r1;
          task = \<lparr>mt_id = oid,
                  mt_title = it_title insertTask,
                  mt_description = it_description insertTask,
                  mt_status = it_status insertTask,
                  mt_priority = it_priority insertTask,
                  mt_createdBy = it_createdBy insertTask,
                  mt_assignedTo = it_assignedTo insertTask,
                  mt_dueDate = it_dueDate insertTask,
                  mt_location = it_location insertTask,
                  mt_boundaryId = it_boundaryId insertTask,
                  mt_featureId = it_featureId insertTask,
                  mt_createdAt = created,
                  mt_updatedAt = updated\<rparr>
      in (task, s1\<lparr>ms_tasks := map_set (ms_tasks s1) oid task, ms_rt := r2\<rparr>))"

definition MemStorage_getTask :: "MemStorage \<Rightarrow> string \<Rightarrow> ITask option" where
  "MemStorage_getTask s oid = map_get (ms_tasks s) oid"

definition MemStorage_updateTaskStatus ::
  "MemStorage \<Rightarrow> string \<Rightarrow> string \<Rightarrow> string \<Rightarrow> (error + ITask) \<times> MemStorage" where
  "MemStorage_updateTaskStatus s oid status userId =
     (case MemStorage_getTask s oid of
        None \<Rightarrow> (Inl (Error (''Task with ID '' @ oid @ '' not found'')), s)
      | Some task \<Rightarrow>
          (let task1 = task\<lparr>mt_status := Some status\<rparr>;
               (updated, r1) = Date_now (ms_rt s);
               task2 = task1\<lparr>mt_updatedAt := updated\<rparr>
           in (Inr task2, s\<lparr>ms_tasks := map_set (ms_tasks s) oid task2, ms_rt := r1\<rparr>)))"

definition MemStorage_assignTask ::
  "MemStorage \<Rightarrow> string \<Rightarrow> string \<Rightarrow> (error + ITask) \<times> MemStorage" where
  "MemStorage_assignTask s oid assignedTo =
     (case MemStorage_getTask s oid of
        None \<Rightarrow> (Inl (Error (''Task with ID '' @ oid @ '' not found'')), s)
      | Some task \<Rightarrow>
          (let task1 = task\<lparr>mt_assignedTo := Some assignedTo\<rparr>;
               task2 = task1\<lparr>mt_status := Some ''Assigned''\<rparr>;
               (updated, r1) = Date_now (ms_rt s);
               task3 = task2\<lparr>mt_updatedAt := updated\<rparr>
           in (Inr task3, s\<lparr>ms_tasks := map_set (ms_tasks s) oid task3, ms_rt := r1\<rparr>)))"

definition MemStorage_createTaskUpdate ::
  "MemStorage \<Rightarrow> InsertTaskUpdate \<Rightarrow> ITaskUpdate \<times> MemStorage" where
  "MemStorage_createTaskUpdate s insertUpdate =
     (let oid = generateId ''update'' (taskUpdateCurrentId s);
          s1 = s\<lparr>taskUpdateCurrentId := taskUpdateCurrentId s + 1\<rparr>;
          (created, r1) = Date_now (ms_rt s1);
          update = \<lparr>mtu_id = oid,
                    mtu_taskId = itu_taskId insertUpdate,
                    mtu_userId = itu_userId insertUpdate,
                    mtu_comment = itu_comment insertUpdate,
                    mtu_oldStatus = itu_oldStatus insertUpdate,
                    mtu_newStatus = itu_newStatus insertUpdate,
                    mtu_createdAt = created\<rparr>
      in (update, s1\<lparr>ms_taskUpdates := map_set (ms_taskUpdates s1) oid update, ms_rt := r1\<rparr>))"

section \<open>Route handlers\<close>

text \<open>
  A handler answers with a status code and a body: a message on failure, the value on
  success.
\<close>

datatype 'a response = Failure nat string | Success nat 'a

text \<open>
  \<open>POST /api/users\<close> on the file backend, after the request body has been parsed into
  an \<open>InsertUser\<close>. \<open>hash\<close> stands for \<open>bcrypt.hash(_, 10)\<close>. The body of the 201
  response is the new user without its password.
\<close>

definition post_api_users ::
  "(string \<Rightarrow> string) \<Rightarrow> FileStorage \<Rightarrow> InsertUser \<Rightarrow> FileUser response \<times> FileStorage" where
  "post_api_users hash s userData =
     (let create = (\<lambda>u.
            let u1 = u\<lparr>iu_password := hash (iu_password u)\<rparr>;
                (newUser, s1) = FileStorage_createUser s u1
            in (Success 201 newUser, s1))
      in if iu_role userData = Field \<and> truthy (iu_teamId userData) then
           (case iu_teamId userData of
              None \<Rightarrow> create userData
            | Some teamId \<Rightarrow>
                if \<not> isValidObjectId teamId then (Failure 400 ''Invalid team ID format'', s)
                else (case FileStorage_getTeam s teamId of
                        None \<Rightarrow> (Failure 400 ''Team does not exist'', s)
                      | Some team \<Rightarrow>
                          if tm_status team \<noteq> ''Approved''
                          then (Failure 400 ''Team is not approved for registration'', s)
                          else create userData))
         else create userData)"

text \<open>
  Modelled from the spec: the loop of \<open>bulkUpdateTaskStatus\<close>, a method of the
  document-database backend, which is not among the sources. By the spec the status
  change is applied to each id that resolves to a task, the other ids are skipped and
  the mutations are counted. Only the status of a task is modelled, on a collection of
  tasks keyed by id.
\<close>

fun bulk_apply :: "FileTask jsmap \<Rightarrow> string list \<Rightarrow> string \<Rightarrow> nat \<times> FileTask jsmap" where
  "bulk_apply tasks [] status = (0, tasks)"
| "bulk_apply tasks (i # ids) status =
     (case map_get tasks i of
        None \<Rightarrow> bulk_apply tasks ids status
      | Some task \<Rightarrow>
          (let (n, tasks1) = bulk_apply (map_set tasks i (task\<lparr>t_status := status\<rparr>)) ids status
           in (Suc n, tasks1)))"

text \<open>
  Modelled from the spec: \<open>bulkUpdateTaskStatus\<close> of the document-database backend,
  which is not among the sources. By the spec it validates that every id is well-formed
  before any mutation, then applies the status change and returns the count.
\<close>

definition bulkUpdateTaskStatus ::
  "FileTask jsmap \<Rightarrow> string list \<Rightarrow> string \<Rightarrow> (error + nat) \<times> FileTask jsmap" where
  "bulkUpdateTaskStatus tasks ids status =
     (if \<not> list_all isValidObjectId ids then (Inl (Error ''Invalid task ID''), tasks)
      else (let (n, tasks1) = bulk_apply tasks ids status in (Inr n, tasks1)))"

text \<open>
  \<open>PATCH /api/tasks/bulk-status\<close>, registered when the backend has the extended
  methods. \<open>taskIds\<close> is \<open>None\<close> when the body has no array under that name, \<open>status\<close>
  is \<open>None\<close> when it is missing.
\<close>

definition patch_api_tasks_bulk_status ::
  "FileTask jsmap \<Rightarrow> string list option \<Rightarrow> string option \<Rightarrow> nat response \<times> FileTask jsmap" where
  "patch_api_tasks_bulk_status tasks taskIds status =
     (case taskIds of
        None \<Rightarrow> (Failure 400 ''Task IDs array is required'', tasks)
      | Some ids \<Rightarrow>
          if ids = [] then (Failure 400 ''Task IDs array is required'', tasks)
          else if \<not> truthy status then (Failure 400 ''Status is required'', tasks)
          else if filter (\<lambda>i. \<not> isValidObjectId i) ids \<noteq> []
          then (Failure 400 ''Invalid task ID format'', tasks)
          else (case bulkUpdateTaskStatus tasks ids (or_default status [])  of
                  (Inl e, tasks1) \<Rightarrow> (Failure 500 ''Failed to bulk update task status'', tasks1)
                | (Inr updatedCount, tasks1) \<Rightarrow> (Success 200 updatedCount, tasks1)))"

section \<open>Example states\<close>

text \<open>
  A clock that starts in November 2023 and advances by a millisecond at each reading, a
  random generator that always returns one half, and a store of each backend holding
  one user and one task.
\<close>

definition ex_rt :: runtime where
  "ex_rt = \<lparr>date_src = (\<lambda>k. 1700000000000 + k), date_cnt = 0, rand_src = (\<lambda>k. 1 / 2), rand_cnt = 0\<rparr>"

definition ex_taskId :: string where "ex_taskId = ''64b7f0c2a1b2c3d4e5f60718''"
definition ex_userId :: string where "ex_userId = ''64b7f0c2a1b2c3d4e5f60719''"
definition ex_teamId :: string where "ex_teamId = ''64b7f0c2a1b2c3d4e5f6071a''"

definition ex_task :: FileTask where
  "ex_task = \<lparr>t_id = ex_taskId, t_title = ''Inspect tower'', t_description = None,
      t_status = ''In Progress'', t_priority = ''High'', t_createdBy = None, t_assignedTo = None,
      t_dueDate = None, t_location = None, t_boundaryId = None, t_featureId = None,
      t_createdAt = 1690000000000, t_updatedAt = 1690000000000\<rparr>"

definition ex_user :: FileUser where
  "ex_user = \<lparr>u_id = ex_userId, u_username = ''Alice'', u_password = ''x'', u_name = ''Alice A'',
      u_email = ''a@example.org'', u_role = Field, u_teamId = None, u_lastActive = None,
      u_currentLocation = None, u_createdAt = 1690000000000, u_updatedAt = 1690000000000\<rparr>"

definition ex_fs :: FileStorage where
  "ex_fs = \<lparr>fs_users = [(ex_userId, ex_user)], fs_tasks = [(ex_taskId, ex_task)], fs_features = [],
      fs_boundaries = [], fs_taskUpdates = [], fs_teams = [], fs_rt = ex_rt\<rparr>"

definition ex_mtask :: ITask where
  "ex_mtask = \<lparr>mt_id = ''task_000001'', mt_title = ''Inspect tower'', mt_description = None,
      mt_status = Some ''In Progress'', mt_priority = ''High'', mt_createdBy = None,
      mt_assignedTo = None, mt_dueDate = None, mt_location = None, mt_boundaryId = None,
      mt_featureId = None, mt_createdAt = 1690000000000, mt_updatedAt = 1690000000000\<rparr>"

definition ex_muser :: IUser where
  "ex_muser = \<lparr>mu_id = ''user_000001'', mu_username = ''Alice'', mu_password = ''x'',
      mu_name = ''Alice A'', mu_email = ''a@example.org'', mu_role = Field, mu_teamId = None,
      mu_createdAt = 1690000000000, mu_updatedAt = 1690000000000, mu_lastActive = None,
      mu_currentLocation = None\<rparr>"

definition ex_ms :: MemStorage where
  "ex_ms = \<lparr>ms_users = [(''user_000001'', ex_muser)], ms_teams = [],
      ms_tasks = [(''task_000001'', ex_mtask)], ms_taskUpdates = [],
      userCurrentId = 2, teamCurrentId = 1, taskCurrentId = 2, taskUpdateCurrentId = 1,
      ms_rt = ex_rt\<rparr>"

definition ex_insertUser :: InsertUser where
  "ex_insertUser = \<lparr>iu_username = ''Alice'', iu_password = ''x'', iu_name = ''Alice A'',
      iu_email = ''a@example.org'', iu_role = Field, iu_teamId = None\<rparr>"

text \<open>A clock that reads 2106-02-07T06:28:16Z, which is \<open>2 ^ 32\<close> seconds after the epoch.\<close>

definition ex_late_rt :: runtime where
  "ex_late_rt = \<lparr>date_src = (\<lambda>k. 4294967296000), date_cnt = 0, rand_src = (\<lambda>k. 1 / 2), rand_cnt = 0\<rparr>"

definition ex_late_fs :: FileStorage where
  "ex_late_fs = ex_fs\<lparr>fs_rt := ex_late_rt\<rparr>"

text \<open>A clock that steps back by a millisecond at each reading.\<close>

definition ex_back_rt :: runtime where
  "ex_back_rt = \<lparr>date_src = (\<lambda>k. 1700000000000 - k), date_cnt = 0, rand_src = (\<lambda>k. 1 / 2), rand_cnt = 0\<rparr>"

definition ex_back_fs :: FileStorage where
  "ex_back_fs = ex_fs\<lparr>fs_rt := ex_back_rt\<rparr>"

definition ex_task2 :: FileTask where
  "ex_task2 = ex_task\<lparr>t_id := ex_userId, t_title := ''Repair fence'', t_status := ''Assigned''\<rparr>"

definition ex_tasks :: "FileTask jsmap" where
  "ex_tasks = [(ex_taskId, ex_task), (ex_userId, ex_task2)]"

definition ex_team :: FileTeam where
  "ex_team = \<lparr>tm_id = ex_teamId, tm_name = ''Survey Team'', tm_description = None,
      tm_status = ''Pending'', tm_createdBy = ex_userId, tm_approvedBy = None,
      tm_createdAt = 1690000000000, tm_updatedAt = 1690000000000\<rparr>"

definition ex_fs_pending :: FileStorage where
  "ex_fs_pending = ex_fs\<lparr>fs_teams := [(ex_teamId, ex_team)]\<rparr>"

definition ex_fs_approved :: FileStorage where
  "ex_fs_approved = ex_fs\<lparr>fs_teams := [(ex_teamId, ex_team\<lparr>tm_status := ''Approved''\<rparr>)]\<rparr>"

definition ex_field_input :: InsertUser where
  "ex_field_input = \<lparr>iu_username = ''bob'', iu_password = ''secret'', iu_name = ''Bob B'',
      iu_email = ''b@example.org'', iu_role = Field, iu_teamId = Some ex_teamId\<rparr>"

definition ex_insertTeam :: InsertTeam where
  "ex_insertTeam = \<lparr>itm_name = ''Survey Team'', itm_description = None, itm_status = None,
      itm_createdBy = ex_userId\<rparr>"

definition ex_insertTask :: InsertTask where
  "ex_insertTask = \<lparr>it_title = ''Inspect tower'', it_description = None, it_status = None,
      it_priority = ''High'', it_createdBy = Some ex_userId, it_assignedTo = None,
      it_dueDate = None, it_location = Some (7, 51), it_boundaryId = None, it_featureId = None\<rparr>"

definition ex_insertFeature :: InsertFeature where
  "ex_insertFeature = \<lparr>if_name = ''Tower 7'', if_feaNo = ''T-7'', if_feaState = ''Plan'',
      if_feaStatus = ''New'', if_feaType = ''Tower'', if_specificType = ''Mobillink'',
      if_maintenance = None, if_maintenanceDate = None, if_geometry = Some (Point (7, 51)),
      if_remarks = None, if_createdBy = Some ex_userId, if_boundaryId = None\<rparr>"

definition ex_insertBoundary :: InsertBoundary where
  "ex_insertBoundary = \<lparr>ib_name = ''Sector A'', ib_description = None, ib_status = None,
      ib_assignedTo = None, ib_geometry = [[(0, 0), (0, 1), (1, 1), (0, 0)]]\<rparr>"

section \<open>Properties\<close>

subsection \<open>Maps\<close>

lemma map_get_set_same: "map_get (map_set m k v) k = Some v"
  by (simp add: map_get_def map_set_def update_conv')

lemma map_get_set_other: "k' \<noteq> k \<Longrightarrow> map_get (map_set m k v) k' = map_get m k'"
  by (simp add: map_get_def map_set_def update_conv')

lemma map_set_keys_present:
  "map_get m k = Some v0 \<Longrightarrow> map fst (map_set m k v) = map fst m"
proof -
  assume "map_get m k = Some v0"
  then have "k \<in> fst ` set m"
    by (metis map_get_def map_of_eq_None_iff option.distinct(1))
  then show ?thesis
    by (simp add: map_set_def update_keys)
qed

lemma update_fresh_append: "k \<notin> fst ` set al \<Longrightarrow> AList.update k v al = al @ [(k, v)]"
  by (induction al) auto

subsection \<open>The format of generated ids\<close>

lemma digit_char_table:
  "list_all (\<lambda>d. of_char (digit_char d) = (if d < 10 then 48 + d else 87 + d :: nat)) [0..<16]"
  by code_simp

lemma of_char_digit_char:
  assumes "d < 16"
  shows "of_char (digit_char d) = (if d < 10 then 48 + d else 87 + d :: nat)"
proof -
  from assms have "d \<in> set [0..<16]" by simp
  with digit_char_table show ?thesis
    unfolding list_all_iff by blast
qed

lemma digit_char_less: "a < b \<Longrightarrow> b < 16 \<Longrightarrow> digit_char a < digit_char b"
  by (simp add: less_char_def of_char_digit_char)

lemma lower_hex_table: "list_all (\<lambda>d. is_lower_hex_char (digit_char d)) [0..<16]"
  by code_simp

lemma digit_char_lower_hex:
  assumes "d < 16"
  shows "is_lower_hex_char (digit_char d)"
proof -
  from assms have "d \<in> set [0..<16]" by simp
  with lower_hex_table show ?thesis
    unfolding list_all_iff by blast
qed

lemma digit_char_0: "digit_char 0 = CHR ''0''"
  by (simp add: digit_char_def)

lemma lower_hex_is_hex: "is_lower_hex_char c \<Longrightarrow> is_hex_char c"
  by (auto simp: is_lower_hex_char_def is_hex_char_def)

lemma length_fixhex: "length (fixhex k n) = k"
  by (induction k arbitrary: n) auto

lemma fixhex_zero: "fixhex k 0 = replicate k CHR ''0''"
  by (induction k) (auto simp: digit_char_0 replicate_append_same)

lemma fixhex_lower_hex: "list_all is_lower_hex_char (fixhex k n)"
  by (induction k arbitrary: n) (auto simp: digit_char_lower_hex)

lemma length_toStringRadix16: "n < 16 ^ Suc k \<Longrightarrow> length (toStringRadix 16 n) \<le> Suc k"
proof (induction k arbitrary: n)
  case 0
  then show ?case by (simp add: toStringRadix.simps)
next
  case (Suc k)
  show ?case
  proof (cases "n < 16")
    case True
    then show ?thesis by (simp add: toStringRadix.simps)
  next
    case False
    from Suc.prems have "n div 16 < 16 ^ Suc k"
      by (simp add: less_mult_imp_div_less mult.commute)
    from Suc.IH [OF this] False show ?thesis
      by (subst toStringRadix.simps) simp
  qed
qed

lemma padStart_fixhex:
  "n < 16 ^ Suc k \<Longrightarrow> padStart (Suc k) CHR ''0'' (toStringRadix 16 n) = fixhex (Suc k) n"
proof (induction k arbitrary: n)
  case 0
  then show ?case by (simp add: toStringRadix.simps padStart_def)
next
  case (Suc k)
  show ?case
  proof (cases "n < 16")
    case True
    then have "toStringRadix 16 n = [digit_char n]"
      by (simp add: toStringRadix.simps)
    with True show ?thesis
      by (simp add: padStart_def fixhex_zero digit_char_0 replicate_append_same)
  next
    case False
    from Suc.prems have small: "n div 16 < 16 ^ Suc k"
      by (simp add: less_mult_imp_div_less mult.commute)
    have unfold: "toStringRadix 16 n = toStringRadix 16 (n div 16) @ [digit_char (n mod 16)]"
      using False by (subst toStringRadix.simps) simp
    have "padStart (Suc (Suc k)) CHR ''0'' (toStringRadix 16 n) =
            padStart (Suc k) CHR ''0'' (toStringRadix 16 (n div 16)) @ [digit_char (n mod 16)]"
      by (simp add: unfold padStart_def)
    also have "\<dots> = fixhex (Suc k) (n div 16) @ [digit_char (n mod 16)]"
      by (simp only: Suc.IH [OF small])
    finally show ?thesis by simp
  qed
qed

lemma fixhex_strict_mono:
  "a < b \<Longrightarrow> b < 16 ^ k \<Longrightarrow> fixhex k a < fixhex k b"
proof (induction k arbitrary: a b)
  case 0
  then show ?case by simp
next
  case (Suc k)
  have le: "a div 16 \<le> b div 16"
    using Suc.prems(1) by (simp add: div_le_mono)
  have small: "b div 16 < 16 ^ k"
    using Suc.prems(2) by (simp add: less_mult_imp_div_less mult.commute)
  show ?case
  proof (cases "a div 16 = b div 16")
    case True
    have "a mod 16 < b mod 16"
      using Suc.prems(1) True by (metis div_mult_mod_eq nat_add_left_cancel_less)
    then have "digit_char (a mod 16) < digit_char (b mod 16)"
      by (simp add: digit_char_less)
    then show ?thesis
      by (simp add: True list_less_def lexord_same_pref_iff)
  next
    case False
    with le have "a div 16 < b div 16" by simp
    from Suc.IH [OF this small]
    have "(fixhex k (a div 16), fixhex k (b div 16)) \<in> lexord {(u, v). u < v}"
      by (simp add: list_less_def)
    then show ?thesis
      by (simp add: list_less_def lexord_sufI length_fixhex)
  qed
qed

lemma fixhex_mono: "a \<le> b \<Longrightarrow> b < 16 ^ k \<Longrightarrow> fixhex k a \<le> fixhex k b"
  using fixhex_strict_mono [of a b k] by (cases "a = b") (auto simp: less_imp_le)

lemma random_floor_bound:
  fixes x :: real
  assumes "0 \<le> x" and "x < 1" and "0 < N"
  shows "nat \<lfloor>x * real N\<rfloor> < N"
proof -
  have "x * real N < real N"
    using assms by simp
  then have "\<lfloor>x * real N\<rfloor> < int N"
    by (simp add: floor_less_iff)
  then show ?thesis
    using assms by linarith
qed

lemma padStart8_fixhex: "n < 4294967296 \<Longrightarrow> padStart 8 CHR ''0'' (toStringRadix 16 n) = fixhex 8 n"
  using padStart_fixhex [of n 7] by simp

lemma padStart6_fixhex: "n < 16777216 \<Longrightarrow> padStart 6 CHR ''0'' (toStringRadix 16 n) = fixhex 6 n"
  using padStart_fixhex [of n 5] by simp

lemma padStart4_fixhex: "n < 65536 \<Longrightarrow> padStart 4 CHR ''0'' (toStringRadix 16 n) = fixhex 4 n"
  using padStart_fixhex [of n 3] by simp

lemma generateObjectId_unfold:
  "fst (generateObjectId r) =
     padStart 8 CHR ''0'' (toStringRadix 16 (date_src r (date_cnt r) div 1000))
     @ padStart 6 CHR ''0'' (toStringRadix 16 (nat \<lfloor>rand_src r (rand_cnt r) * 16777215\<rfloor>))
     @ padStart 4 CHR ''0'' (toStringRadix 16 (nat \<lfloor>rand_src r (Suc (rand_cnt r)) * 65535\<rfloor>))
     @ padStart 6 CHR ''0'' (toStringRadix 16 (nat \<lfloor>rand_src r (Suc (Suc (rand_cnt r))) * 16777215\<rfloor>))"
  by (simp add: generateObjectId_def Date_now_def Math_random_def Let_def)

lemma generateObjectId_fixhex:
  assumes "random_ok r" and "date_src r (date_cnt r) div 1000 < 2 ^ 32"
  shows "fst (generateObjectId r) =
     fixhex 8 (date_src r (date_cnt r) div 1000)
     @ fixhex 6 (nat \<lfloor>rand_src r (rand_cnt r) * 16777215\<rfloor>)
     @ fixhex 4 (nat \<lfloor>rand_src r (Suc (rand_cnt r)) * 65535\<rfloor>)
     @ fixhex 6 (nat \<lfloor>rand_src r (Suc (Suc (rand_cnt r))) * 16777215\<rfloor>)"
proof -
  have rnd: "0 \<le> rand_src r k" "rand_src r k < 1" for k
    using assms(1) by (simp_all add: random_ok_def)
  have m: "nat \<lfloor>rand_src r k * 16777215\<rfloor> < 16777216" for k
    using random_floor_bound [OF rnd, of 16777215 k] by simp
  have p: "nat \<lfloor>rand_src r k * 65535\<rfloor> < 65536" for k
    using random_floor_bound [OF rnd, of 65535 k] by simp
  have t: "date_src r (date_cnt r) div 1000 < 4294967296"
    using assms(2) by simp
  show ?thesis
    by (simp only: generateObjectId_unfold padStart8_fixhex [OF t] padStart6_fixhex [OF m]
        padStart4_fixhex [OF p])
qed

lemma generateObjectId_valid:
  assumes "random_ok r" and "date_src r (date_cnt r) div 1000 < 2 ^ 32"
  shows "isValidObjectId (fst (generateObjectId r))"
proof -
  have "list_all is_hex_char (fixhex k n)" for k n
    using fixhex_lower_hex [of k n] by (simp add: list_all_iff lower_hex_is_hex)
  then show ?thesis
    by (simp add: generateObjectId_fixhex [OF assms] isValidObjectId_def length_fixhex)
qed

lemma generateObjectId_runtime:
  "snd (generateObjectId r) = r\<lparr>date_cnt := Suc (date_cnt r), rand_cnt := Suc (Suc (Suc (rand_cnt r)))\<rparr>"
  by (simp add: generateObjectId_def Date_now_def Math_random_def Let_def)

text \<open>
  Claim C7, as amended. While the clock reads less than \<open>2 ^ 32\<close> seconds since the
  epoch, an id of the file backend has 24 characters, all lowercase hexadecimal: the
  seconds in 8 characters, then the machine, process and counter values in 6, 4 and 6
  characters. Of two ids, the one generated at the earlier or same clock reading has the
  smaller or equal 8-character prefix in the order of strings.
\<close>

theorem generateObjectId_format:
  assumes "random_ok r" and "date_src r (date_cnt r) div 1000 < 2 ^ 32"
    and "random_ok r'" and "date_src r' (date_cnt r') div 1000 < 2 ^ 32"
    and "date_src r (date_cnt r) \<le> date_src r' (date_cnt r')"
  shows "length (fst (generateObjectId r)) = 24
       \<and> list_all is_lower_hex_char (fst (generateObjectId r))
       \<and> take 8 (fst (generateObjectId r)) =
           padStart 8 CHR ''0'' (toStringRadix 16 (date_src r (date_cnt r) div 1000))
       \<and> take 6 (drop 8 (fst (generateObjectId r))) =
           padStart 6 CHR ''0'' (toStringRadix 16 (nat \<lfloor>rand_src r (rand_cnt r) * 16777215\<rfloor>))
       \<and> take 4 (drop 14 (fst (generateObjectId r))) =
           padStart 4 CHR ''0'' (toStringRadix 16 (nat \<lfloor>rand_src r (Suc (rand_cnt r)) * 65535\<rfloor>))
       \<and> drop 18 (fst (generateObjectId r)) =
           padStart 6 CHR ''0'' (toStringRadix 16 (nat \<lfloor>rand_src r (Suc (Suc (rand_cnt r))) * 16777215\<rfloor>))
       \<and> take 8 (fst (generateObjectId r)) \<le> take 8 (fst (generateObjectId r'))"
proof -
  have rnd: "0 \<le> rand_src r k" "rand_src r k < 1" for k
    using assms(1) by (simp_all add: random_ok_def)
  have m: "nat \<lfloor>rand_src r k * 16777215\<rfloor> < 16777216" for k
    using random_floor_bound [OF rnd, of 16777215 k] by simp
  have p: "nat \<lfloor>rand_src r k * 65535\<rfloor> < 65536" for k
    using random_floor_bound [OF rnd, of 65535 k] by simp
  have t: "date_src r (date_cnt r) div 1000 < 4294967296"
    using assms(2) by simp
  have t': "date_src r' (date_cnt r') div 1000 < 16 ^ 8"
    using assms(4) by simp
  have le: "date_src r (date_cnt r) div 1000 \<le> date_src r' (date_cnt r') div 1000"
    using assms(5) by (rule div_le_mono)
  note shape = generateObjectId_fixhex [OF assms(1,2)]
  note shape' = generateObjectId_fixhex [OF assms(3,4)]
  have len: "length (fst (generateObjectId r)) = 24"
    by (simp add: shape length_fixhex)
  have hex: "list_all is_lower_hex_char (fst (generateObjectId r))"
    by (simp add: shape fixhex_lower_hex)
  have ts: "take 8 (fst (generateObjectId r)) = fixhex 8 (date_src r (date_cnt r) div 1000)"
    by (simp add: shape length_fixhex)
  have ts': "take 8 (fst (generateObjectId r')) = fixhex 8 (date_src r' (date_cnt r') div 1000)"
    by (simp add: shape' length_fixhex)
  have mach: "take 6 (drop 8 (fst (generateObjectId r))) =
      fixhex 6 (nat \<lfloor>rand_src r (rand_cnt r) * 16777215\<rfloor>)"
    by (simp add: shape length_fixhex)
  have proc: "take 4 (drop 14 (fst (generateObjectId r))) =
      fixhex 4 (nat \<lfloor>rand_src r (Suc (rand_cnt r)) * 65535\<rfloor>)"
    by (simp add: shape length_fixhex)
  have cnt: "drop 18 (fst (generateObjectId r)) =
      fixhex 6 (nat \<lfloor>rand_src r (Suc (Suc (rand_cnt r))) * 16777215\<rfloor>)"
    by (simp add: shape length_fixhex)
  have ord: "take 8 (fst (generateObjectId r)) \<le> take 8 (fst (generateObjectId r'))"
    unfolding ts ts' using le t' by (rule fixhex_mono)
  show ?thesis
    using len hex ord
    by (simp only: ts mach proc cnt padStart8_fixhex [OF t] padStart6_fixhex [OF m]
        padStart4_fixhex [OF p] simp_thms)
qed

lemma random_ok_ex_rt: "random_ok ex_rt"
  by (simp add: random_ok_def ex_rt_def)

lemma ex_rt_next_id: "fst (generateObjectId ex_rt) = ''6553f1007fffff7fff7fffff''"
  by (simp add: generateObjectId_unfold ex_rt_def padStart_def toStringRadix.simps digit_char_def)

theorem generateObjectId_format_witness:
  "random_ok ex_rt \<and> date_src ex_rt (date_cnt ex_rt) div 1000 < 2 ^ 32
   \<and> date_src ex_rt (date_cnt ex_rt) \<le> date_src ex_rt (date_cnt ex_rt)
   \<and> fst (generateObjectId ex_rt) = ''6553f1007fffff7fff7fffff''
   \<and> length (fst (generateObjectId ex_rt)) = 24
   \<and> list_all is_lower_hex_char (fst (generateObjectId ex_rt))
   \<and> take 8 (fst (generateObjectId ex_rt)) \<le> take 8 (fst (generateObjectId ex_rt))"
proof -
  have t: "date_src ex_rt (date_cnt ex_rt) div 1000 < 2 ^ 32"
    by (simp add: ex_rt_def)
  from generateObjectId_format [OF random_ok_ex_rt t random_ok_ex_rt t order_refl]
  have "length (fst (generateObjectId ex_rt)) = 24"
    and "list_all is_lower_hex_char (fst (generateObjectId ex_rt))"
    by blast+
  with random_ok_ex_rt t ex_rt_next_id show ?thesis
    by (intro conjI) (assumption | rule order_refl)+
qed

lemma ex_late_rt_next_id: "fst (generateObjectId ex_late_rt) = ''1000000007fffff7fff7fffff''"
  by (simp add: generateObjectId_unfold ex_late_rt_def padStart_def toStringRadix.simps digit_char_def)

text \<open>
  \<open>padStart\<close> pads and never truncates: at \<open>2 ^ 32\<close> seconds the timestamp has 9
  hexadecimal digits and the id 25 characters.
\<close>

theorem generateObjectId_late_clock_counterexample:
  "date_src ex_late_rt (date_cnt ex_late_rt) div 1000 = 2 ^ 32
   \<and> fst (generateObjectId ex_late_rt) = ''1000000007fffff7fff7fffff''
   \<and> length (fst (generateObjectId ex_late_rt)) = 25
   \<and> \<not> isValidObjectId (fst (generateObjectId ex_late_rt))"
  by (simp add: ex_late_rt_next_id) (simp add: ex_late_rt_def isValidObjectId_def)

lemma ex_ids_valid: "isValidObjectId ex_taskId" "isValidObjectId ex_userId" "isValidObjectId ex_teamId"
  by (simp_all add: isValidObjectId_def ex_taskId_def ex_userId_def ex_teamId_def is_hex_char_def)

subsection \<open>Reading by id\<close>

text \<open>
  Claim C4, as amended. In the file backend, for an id that is not of the 24-hex
  format, \<open>getUser\<close>, \<open>getTask\<close>, \<open>getFeature\<close>, \<open>getTeam\<close> and \<open>getBoundary\<close>
  return nothing; they are functions of the state and change nothing.
\<close>

theorem file_get_malformed_id_not_found:
  assumes "\<not> isValidObjectId oid"
  shows "FileStorage_getUser s oid = None \<and> FileStorage_getTask s oid = None
       \<and> FileStorage_getFeature s oid = None \<and> FileStorage_getTeam s oid = None
       \<and> FileStorage_getBoundary s oid = None"
  using assms
  by (simp add: FileStorage_getUser_def FileStorage_getTask_def FileStorage_getFeature_def
      FileStorage_getTeam_def FileStorage_getBoundary_def)

lemma mem_id_malformed: "\<not> isValidObjectId ''user_000001''"
  by (simp add: isValidObjectId_def)

theorem file_get_malformed_id_not_found_witness:
  "\<not> isValidObjectId ''user_000001''
   \<and> FileStorage_getUser ex_fs ''user_000001'' = None \<and> FileStorage_getTask ex_fs ''user_000001'' = None
   \<and> FileStorage_getFeature ex_fs ''user_000001'' = None \<and> FileStorage_getTeam ex_fs ''user_000001'' = None
   \<and> FileStorage_getBoundary ex_fs ''user_000001'' = None"
  using file_get_malformed_id_not_found [OF mem_id_malformed, of ex_fs] mem_id_malformed by simp

text \<open>
  The in-memory backend does not check the format: the id it generates for its first
  user is not of the 24-hex format, and \<open>getUser\<close> returns the user stored under it.
\<close>

lemma generateId_user_1: "generateId ''user'' (Suc 0) = ''user_000001''"
  by code_simp

theorem mem_get_malformed_id_counterexample:
  "\<not> isValidObjectId ''user_000001''
   \<and> MemStorage_getUser (snd (MemStorage_createUser (MemStorage_init ex_rt) ex_insertUser)) ''user_000001''
       = Some (fst (MemStorage_createUser (MemStorage_init ex_rt) ex_insertUser))"
  by (simp add: mem_id_malformed MemStorage_getUser_def MemStorage_createUser_def MemStorage_init_def
      generateId_user_1 Date_now_def Let_def map_get_def map_set_def)

subsection \<open>Create, then get\<close>

lemma clock_ok_step: "clock_ok r \<Longrightarrow> date_src r (Suc k) \<le> date_src r (Suc (Suc k))"
  by (simp add: clock_ok_def)

lemma clock_ok_step0: "clock_ok r \<Longrightarrow> date_src r k \<le> date_src r (Suc k)"
  by (simp add: clock_ok_def)

lemma FileStorage_createUser_roundtrip:
  assumes "isValidObjectId (fst (generateObjectId (fs_rt s)))" and "clock_ok (fs_rt s)"
  shows "case FileStorage_createUser s insertUser of (user, s') \<Rightarrow>
           FileStorage_getUser s' (u_id user) = Some user \<and> u_createdAt user \<le> u_updatedAt user"
  using assms
  by (simp add: FileStorage_createUser_def FileStorage_getUser_def Let_def case_prod_beta
      map_get_set_same Date_now_def generateObjectId_runtime clock_ok_step)

lemma FileStorage_createTeam_roundtrip:
  assumes "isValidObjectId (fst (generateObjectId (fs_rt s)))" and "clock_ok (fs_rt s)"
  shows "case FileStorage_createTeam s insertTeam of (team, s') \<Rightarrow>
           FileStorage_getTeam s' (tm_id team) = Some team \<and> tm_createdAt team \<le> tm_updatedAt team"
  using assms
  by (simp add: FileStorage_createTeam_def FileStorage_getTeam_def Let_def case_prod_beta
      map_get_set_same Date_now_def generateObjectId_runtime clock_ok_step)

lemma FileStorage_createTask_roundtrip:
  assumes "isValidObjectId (fst (generateObjectId (fs_rt s)))" and "clock_ok (fs_rt s)"
  shows "case FileStorage_createTask s insertTask of (task, s') \<Rightarrow>
           FileStorage_getTask s' (t_id task) = Some task \<and> t_createdAt task \<le> t_updatedAt task"
  using assms
  by (simp add: FileStorage_createTask_def FileStorage_getTask_def Let_def case_prod_beta
      map_get_set_same Date_now_def generateObjectId_runtime clock_ok_step)

lemma FileStorage_createFeature_roundtrip:
  assumes "isValidObjectId (fst (generateObjectId (fs_rt s)))" and "clock_ok (fs_rt s)"
  shows "case FileStorage_createFeature s insertFeature of (feature, s') \<Rightarrow>
           FileStorage_getFeature s' (f_id feature) = Some feature
           \<and> f_createdAt feature \<le> f_updatedAt feature"
  using assms
  by (simp add: FileStorage_createFeature_def FileStorage_getFeature_def Let_def case_prod_beta
      map_get_set_same Date_now_def generateObjectId_runtime clock_ok_step)

lemma FileStorage_createBoundary_roundtrip:
  assumes "isValidObjectId (fst (generateObjectId (fs_rt s)))" and "clock_ok (fs_rt s)"
  shows "case FileStorage_createBoundary s insertBoundary of (boundary, s') \<Rightarrow>
           FileStorage_getBoundary s' (b_id boundary) = Some boundary
           \<and> b_createdAt boundary \<le> b_updatedAt boundary"
  using assms
  by (simp add: FileStorage_createBoundary_def FileStorage_getBoundary_def Let_def case_prod_beta
      map_get_set_same Date_now_def generateObjectId_runtime clock_ok_step)

lemma MemStorage_create_roundtrip:
  assumes "clock_ok (ms_rt m)"
  shows "case MemStorage_createUser m insertUser of (user, m') \<Rightarrow>
           MemStorage_getUser m' (mu_id user) = Some user \<and> mu_createdAt user \<le> mu_updatedAt user"
    and "case MemStorage_createTeam m insertTeam of (team, m') \<Rightarrow>
           MemStorage_getTeam m' (mtm_id team) = Some team \<and> mtm_createdAt team \<le> mtm_updatedAt team"
    and "case MemStorage_createTask m insertTask of (task, m') \<Rightarrow>
           MemStorage_getTask m' (mt_id task) = Some task \<and> mt_createdAt task \<le> mt_updatedAt task"
  using assms
  by (simp_all add: MemStorage_createUser_def MemStorage_getUser_def MemStorage_createTeam_def
      MemStorage_getTeam_def MemStorage_createTask_def MemStorage_getTask_def Let_def
      case_prod_beta map_get_set_same Date_now_def clock_ok_step0)

text \<open>
  Claim C5, as amended. With a clock that does not run backwards, a create operation
  followed by the get of the returned id yields the entity that the create returned,
  and its \<open>updatedAt\<close> is not before its \<open>createdAt\<close>: in the in-memory backend always, in
  the file backend while the clock reads less than \<open>2 ^ 32\<close> seconds, so that the
  generated id is of the 24-hex format.
\<close>

theorem create_then_get_roundtrip:
  assumes "random_ok (fs_rt s)" and "date_src (fs_rt s) (date_cnt (fs_rt s)) div 1000 < 2 ^ 32"
    and "clock_ok (fs_rt s)" and "clock_ok (ms_rt m)"
  shows "(case FileStorage_createUser s insertUser of (user, s') \<Rightarrow>
            FileStorage_getUser s' (u_id user) = Some user \<and> u_createdAt user \<le> u_updatedAt user)
       \<and> (case FileStorage_createTeam s insertTeam of (team, s') \<Rightarrow>
            FileStorage_getTeam s' (tm_id team) = Some team \<and> tm_createdAt team \<le> tm_updatedAt team)
       \<and> (case FileStorage_createTask s insertTask of (task, s') \<Rightarrow>
            FileStorage_getTask s' (t_id task) = Some task \<and> t_createdAt task \<le> t_updatedAt task)
       \<and> (case FileStorage_createFeature s insertFeature of (feature, s') \<Rightarrow>
            FileStorage_getFeature s' (f_id feature) = Some feature
            \<and> f_createdAt feature \<le> f_updatedAt feature)
       \<and> (case FileStorage_createBoundary s insertBoundary of (boundary, s') \<Rightarrow>
            FileStorage_getBoundary s' (b_id boundary) = Some boundary
            \<and> b_createdAt boundary \<le> b_updatedAt boundary)
       \<and> (case MemStorage_createUser m insertUser of (user, m') \<Rightarrow>
            MemStorage_getUser m' (mu_id user) = Some user \<and> mu_createdAt user \<le> mu_updatedAt user)
       \<and> (case MemStorage_createTeam m insertTeam of (team, m') \<Rightarrow>
            MemStorage_getTeam m' (mtm_id team) = Some team \<and> mtm_createdAt team \<le> mtm_updatedAt team)
       \<and> (case MemStorage_createTask m insertTask of (task, m') \<Rightarrow>
            MemStorage_getTask m' (mt_id task) = Some task \<and> mt_createdAt task \<le> mt_updatedAt task)"
proof -
  note valid = generateObjectId_valid [OF assms(1,2)]
  show ?thesis
    by (intro conjI FileStorage_createUser_roundtrip [OF valid assms(3)]
        FileStorage_createTeam_roundtrip [OF valid assms(3)]
        FileStorage_createTask_roundtrip [OF valid assms(3)]
        FileStorage_createFeature_roundtrip [OF valid assms(3)]
        FileStorage_createBoundary_roundtrip [OF valid assms(3)]
        MemStorage_create_roundtrip [OF assms(4)])
qed

lemma clock_ok_ex_rt: "clock_ok ex_rt"
  by (simp add: clock_ok_def ex_rt_def)

theorem create_then_get_roundtrip_witness:
  "random_ok (fs_rt ex_fs) \<and> date_src (fs_rt ex_fs) (date_cnt (fs_rt ex_fs)) div 1000 < 2 ^ 32
   \<and> clock_ok (fs_rt ex_fs) \<and> clock_ok (ms_rt ex_ms)
   \<and> (case FileStorage_createTask ex_fs ex_insertTask of (task, s') \<Rightarrow>
         FileStorage_getTask s' (t_id task) = Some task \<and> t_createdAt task \<le> t_updatedAt task)
   \<and> (case FileStorage_createFeature ex_fs ex_insertFeature of (feature, s') \<Rightarrow>
         FileStorage_getFeature s' (f_id feature) = Some feature
         \<and> f_createdAt feature \<le> f_updatedAt feature)
   \<and> (case MemStorage_createTask ex_ms ex_insertTask of (task, m') \<Rightarrow>
         MemStorage_getTask m' (mt_id task) = Some task \<and> mt_createdAt task \<le> mt_updatedAt task)"
proof -
  have rt: "fs_rt ex_fs = ex_rt" "ms_rt ex_ms = ex_rt"
    by (simp_all add: ex_fs_def ex_ms_def)
  have r: "random_ok (fs_rt ex_fs)"
    by (simp add: rt random_ok_ex_rt)
  have t: "date_src (fs_rt ex_fs) (date_cnt (fs_rt ex_fs)) div 1000 < 2 ^ 32"
    by (simp add: rt ex_rt_def)
  have c: "clock_ok (fs_rt ex_fs)" "clock_ok (ms_rt ex_ms)"
    by (simp_all add: rt clock_ok_ex_rt)
  from create_then_get_roundtrip [OF r t c, of ex_insertUser ex_insertTeam ex_insertTask
      ex_insertFeature ex_insertBoundary]
  show ?thesis using r t c by (elim conjE) (intro conjI; assumption)
qed

lemma FileStorage_createTask_times:
  "t_createdAt (fst (FileStorage_createTask s insertTask)) = date_src (fs_rt s) (Suc (date_cnt (fs_rt s)))"
  "t_updatedAt (fst (FileStorage_createTask s insertTask)) = date_src (fs_rt s) (Suc (Suc (date_cnt (fs_rt s))))"
  by (simp_all add: FileStorage_createTask_def Let_def case_prod_beta Date_now_def
      generateObjectId_runtime)

text \<open>
  At \<open>2 ^ 32\<close> seconds the file backend stores the new task under an id of 25
  characters, and \<open>getTask\<close> refuses that id. With a clock that steps back by a
  millisecond at each reading, the new task is updated before it is created.
\<close>

theorem create_then_get_late_clock_counterexample:
  "t_id (fst (FileStorage_createTask ex_late_fs ex_insertTask)) = ''1000000007fffff7fff7fffff''
   \<and> map_get (fs_tasks (snd (FileStorage_createTask ex_late_fs ex_insertTask)))
        ''1000000007fffff7fff7fffff'' = Some (fst (FileStorage_createTask ex_late_fs ex_insertTask))
   \<and> FileStorage_getTask (snd (FileStorage_createTask ex_late_fs ex_insertTask))
        (t_id (fst (FileStorage_createTask ex_late_fs ex_insertTask))) = None
   \<and> t_createdAt (fst (FileStorage_createTask ex_back_fs ex_insertTask)) = 1699999999999
   \<and> t_updatedAt (fst (FileStorage_createTask ex_back_fs ex_insertTask)) = 1699999999998"
proof -
  have rt: "fs_rt ex_late_fs = ex_late_rt"
    by (simp add: ex_late_fs_def)
  note g = ex_late_rt_next_id
  have i: "t_id (fst (FileStorage_createTask ex_late_fs ex_insertTask)) = ''1000000007fffff7fff7fffff''"
    by (simp add: FileStorage_createTask_def Let_def case_prod_beta rt g)
  have m: "map_get (fs_tasks (snd (FileStorage_createTask ex_late_fs ex_insertTask)))
        ''1000000007fffff7fff7fffff'' = Some (fst (FileStorage_createTask ex_late_fs ex_insertTask))"
    by (simp add: FileStorage_createTask_def Let_def case_prod_beta rt g map_get_set_same)
  have n: "\<not> isValidObjectId ''1000000007fffff7fff7fffff''"
    by (simp add: isValidObjectId_def)
  have b: "t_createdAt (fst (FileStorage_createTask ex_back_fs ex_insertTask)) = 1699999999999"
    "t_updatedAt (fst (FileStorage_createTask ex_back_fs ex_insertTask)) = 1699999999998"
    by (simp_all add: FileStorage_createTask_times ex_back_fs_def ex_back_rt_def)
  show ?thesis
    using i m n b by (simp add: FileStorage_getTask_def)
qed

subsection \<open>Users\<close>

lemma toLowerCase_Alice: "toLowerCase ''Alice'' = ''alice''" "toLowerCase ''alice'' = ''alice''"
  by code_simp+

lemma find_unique:
  "u \<in> set xs \<Longrightarrow> P u \<Longrightarrow> \<forall>x \<in> set xs. P x \<longrightarrow> x = u \<Longrightarrow> List.find P xs = Some u"
proof (induction xs)
  case Nil
  then show ?case by simp
next
  case (Cons a xs)
  show ?case
  proof (cases "P a")
    case True
    from Cons.prems(3) True have "a = u" by (metis list.set_intros(1))
    with True show ?thesis by simp
  next
    case False
    with Cons.prems(1,2) have "u \<in> set xs" by (metis set_ConsD)
    moreover from Cons.prems(3) have "\<forall>x \<in> set xs. P x \<longrightarrow> x = u"
      by (metis list.set_intros(2))
    ultimately have "List.find P xs = Some u"
      using Cons.IH Cons.prems(2) by blast
    with False show ?thesis by simp
  qed
qed

lemma MemStorage_getUserByUsername_folds_case:
  assumes "u \<in> set (map_values (ms_users m))"
    and "toLowerCase username = toLowerCase (mu_username u)"
    and "\<forall>x \<in> set (map_values (ms_users m)).
           toLowerCase (mu_username x) = toLowerCase (mu_username u) \<longrightarrow> x = u"
  shows "MemStorage_getUserByUsername m username = Some u"
  unfolding MemStorage_getUserByUsername_def array_find_def
proof (rule find_unique [OF assms(1)])
  show "toLowerCase (mu_username u) = toLowerCase username"
    using assms(2) by (rule sym)
  show "\<forall>x \<in> set (map_values (ms_users m)).
          toLowerCase (mu_username x) = toLowerCase username \<longrightarrow> x = u"
    using assms(3) unfolding assms(2) .
qed

lemma FileStorage_getUserByUsername_exact:
  assumes "FileStorage_getUserByUsername s username = Some u"
  shows "u_username u = username"
proof -
  from assms have "List.find (\<lambda>user. u_username user = username) (map_values (fs_users s)) = Some u"
    by (simp add: FileStorage_getUserByUsername_def array_find_def)
  then obtain i where "u = map_values (fs_users s) ! i" and "u_username (map_values (fs_users s) ! i) = username"
    unfolding find_Some_iff by blast
  then show ?thesis by (rule ssubst)
qed

text \<open>
  Claim C8. \<open>getUserByUsername\<close> finds a user by a name that differs in letter case
  only. The file backend compares with \<open>===\<close>: with the user \<open>Alice\<close> stored, the query
  \<open>alice\<close> finds nothing, where the in-memory backend finds the user.
\<close>

theorem file_getUserByUsername_is_case_sensitive:
  "map_values (fs_users ex_fs) = [ex_user] \<and> u_username ex_user = ''Alice''
   \<and> toLowerCase ''alice'' = toLowerCase (u_username ex_user)
   \<and> FileStorage_getUserByUsername ex_fs ''alice'' = None
   \<and> MemStorage_getUserByUsername ex_ms ''alice'' = Some ex_muser"
  by (simp add: FileStorage_getUserByUsername_def MemStorage_getUserByUsername_def
      array_find_def map_values_def ex_fs_def ex_ms_def ex_user_def ex_muser_def toLowerCase_Alice)

text \<open>
  Claim C9. In the file backend, \<open>updateUserLocation\<close> on an existing user sets
  \<open>currentLocation\<close> to the point with longitude first, sets \<open>lastActive\<close> and
  \<open>updatedAt\<close> to the next two clock readings, and changes no other field of the user,
  no other user and no other collection.
\<close>

theorem updateUserLocation_frame:
  assumes "isValidObjectId oid" and "map_get (fs_users s) oid = Some user"
  shows "\<exists>s'. FileStorage_updateUserLocation s oid lat lng =
           (Inr (user\<lparr>u_currentLocation := Some (Point (lng, lat)),
                        u_lastActive := Some (date_src (fs_rt s) (date_cnt (fs_rt s))),
                        u_updatedAt := date_src (fs_rt s) (Suc (date_cnt (fs_rt s)))\<rparr>), s')
         \<and> map_get (fs_users s') oid =
             Some (user\<lparr>u_currentLocation := Some (Point (lng, lat)),
                        u_lastActive := Some (date_src (fs_rt s) (date_cnt (fs_rt s))),
                        u_updatedAt := date_src (fs_rt s) (Suc (date_cnt (fs_rt s)))\<rparr>)
         \<and> (\<forall>k. k \<noteq> oid \<longrightarrow> map_get (fs_users s') k = map_get (fs_users s) k)
         \<and> map fst (fs_users s') = map fst (fs_users s)
         \<and> fs_tasks s' = fs_tasks s \<and> fs_features s' = fs_features s
         \<and> fs_boundaries s' = fs_boundaries s \<and> fs_taskUpdates s' = fs_taskUpdates s
         \<and> fs_teams s' = fs_teams s"
  using assms
  by (simp add: FileStorage_updateUserLocation_def Date_now_def Let_def
      map_get_set_same map_get_set_other map_set_keys_present)

theorem updateUserLocation_frame_witness:
  "isValidObjectId ex_userId \<and> map_get (fs_users ex_fs) ex_userId = Some ex_user
   \<and> (\<exists>s'. FileStorage_updateUserLocation ex_fs ex_userId 51 7 =
           (Inr (ex_user\<lparr>u_currentLocation := Some (Point (7, 51)),
                        u_lastActive := Some 1700000000000,
                        u_updatedAt := 1700000000001\<rparr>), s')
         \<and> fs_tasks s' = fs_tasks ex_fs)"
proof -
  have u: "map_get (fs_users ex_fs) ex_userId = Some ex_user"
    by (simp add: ex_fs_def map_get_def)
  have t: "date_src (fs_rt ex_fs) (date_cnt (fs_rt ex_fs)) = 1700000000000"
     "date_src (fs_rt ex_fs) (Suc (date_cnt (fs_rt ex_fs))) = 1700000000001"
    by (simp_all add: ex_fs_def ex_rt_def)
  from updateUserLocation_frame [OF ex_ids_valid(2) u, of 51 7]
  show ?thesis using u ex_ids_valid(2) unfolding t by blast
qed

text \<open>
  Claim C10. In the file backend, \<open>assignUserToTeam\<close> on an existing user with a
  well-formed team id succeeds and sets the user's \<open>teamId\<close>, whatever the collection of
  teams holds; the in-memory backend throws when no team has the id.
\<close>

theorem assignUserToTeam_team_check_differs:
  "(isValidObjectId userId \<and> isValidObjectId teamId \<and> map_get (fs_users s) userId = Some user \<longrightarrow>
      (\<exists>s'. FileStorage_assignUserToTeam s userId teamId =
               (Inr (user\<lparr>u_teamId := Some teamId,
                            u_updatedAt := date_src (fs_rt s) (date_cnt (fs_rt s))\<rparr>), s')
           \<and> FileStorage_getUser s' userId =
               Some (user\<lparr>u_teamId := Some teamId,
                            u_updatedAt := date_src (fs_rt s) (date_cnt (fs_rt s))\<rparr>)))
   \<and> (map_get (ms_users m) muserId = Some muser \<and> map_get (ms_teams m) mteamId = None \<longrightarrow>
        MemStorage_assignUserToTeam m muserId mteamId =
          (Inl (Error (''Team with ID '' @ mteamId @ '' not found'')), m))"
  by (simp add: FileStorage_assignUserToTeam_def FileStorage_getUser_def
      MemStorage_assignUserToTeam_def MemStorage_getUser_def MemStorage_getTeam_def
      Date_now_def map_get_set_same Let_def)

theorem assignUserToTeam_team_check_differs_witness:
  "isValidObjectId ex_userId \<and> isValidObjectId ex_teamId
   \<and> map_get (fs_users ex_fs) ex_userId = Some ex_user
   \<and> FileStorage_getTeam ex_fs ex_teamId = None
   \<and> fst (FileStorage_assignUserToTeam ex_fs ex_userId ex_teamId) =
        Inr (ex_user\<lparr>u_teamId := Some ex_teamId, u_updatedAt := 1700000000000\<rparr>)
   \<and> map_get (ms_users ex_ms) ''user_000001'' = Some ex_muser
   \<and> map_get (ms_teams ex_ms) ''team_000001'' = None
   \<and> MemStorage_assignUserToTeam ex_ms ''user_000001'' ''team_000001'' =
        (Inl (Error ''Team with ID team_000001 not found''), ex_ms)"
proof -
  have u: "map_get (fs_users ex_fs) ex_userId = Some ex_user"
    by (simp add: ex_fs_def map_get_def)
  have g: "FileStorage_getTeam ex_fs ex_teamId = None"
    by (simp add: FileStorage_getTeam_def ex_fs_def map_get_def)
  have m: "map_get (ms_users ex_ms) ''user_000001'' = Some ex_muser"
     "map_get (ms_teams ex_ms) ''team_000001'' = None"
    by (simp_all add: ex_ms_def map_get_def)
  have t: "date_src (fs_rt ex_fs) (date_cnt (fs_rt ex_fs)) = 1700000000000"
    by (simp add: ex_fs_def ex_rt_def)
  from assignUserToTeam_team_check_differs
    [of ex_userId ex_teamId ex_fs ex_user ex_ms "''user_000001''" ex_muser "''team_000001''"]
  show ?thesis using u g m ex_ids_valid unfolding t by auto
qed

lemma FileStorage_createUser_stores:
  "map_get (fs_users (snd (FileStorage_createUser s insertUser)))
     (u_id (fst (FileStorage_createUser s insertUser))) = Some (fst (FileStorage_createUser s insertUser))"
  by (simp add: FileStorage_createUser_def Let_def case_prod_beta map_get_set_same)

lemma FileStorage_createUser_fields:
  "u_id (fst (FileStorage_createUser s insertUser)) = fst (generateObjectId (fs_rt s))"
  "u_username (fst (FileStorage_createUser s insertUser)) = iu_username insertUser"
  "u_role (fst (FileStorage_createUser s insertUser)) = iu_role insertUser"
  "u_teamId (fst (FileStorage_createUser s insertUser)) = toString_or_undefined (iu_teamId insertUser)"
  "fs_users (snd (FileStorage_createUser s insertUser)) =
     map_set (fs_users s) (fst (generateObjectId (fs_rt s))) (fst (FileStorage_createUser s insertUser))"
  by (simp_all add: FileStorage_createUser_def Let_def case_prod_beta)

text \<open>
  Claim C2, as amended. The check of the team is in the handler of \<open>POST /api/users\<close>:
  for a field user with a non-empty team id, when the file backend finds no team under
  the id (malformed or absent) or the team is not \<open>Approved\<close>, the handler answers 400
  and the state is unchanged; when the team is \<open>Approved\<close>, it answers 201 with the user
  that \<open>createUser\<close> has stored, whose team is the given one.
\<close>

theorem post_api_users_checks_team:
  assumes "iu_role userData = Field" and "iu_teamId userData = Some teamId" and "teamId \<noteq> []"
  shows "((FileStorage_getTeam s teamId = None
            \<or> (\<exists>team. FileStorage_getTeam s teamId = Some team \<and> tm_status team \<noteq> ''Approved'')) \<longrightarrow>
           (\<exists>msg. post_api_users hash s userData = (Failure 400 msg, s)))
       \<and> ((\<exists>team. FileStorage_getTeam s teamId = Some team \<and> tm_status team = ''Approved'') \<longrightarrow>
           (\<exists>user s'. post_api_users hash s userData = (Success 201 user, s')
              \<and> (user, s') = FileStorage_createUser s (userData\<lparr>iu_password := hash (iu_password userData)\<rparr>)
              \<and> map_get (fs_users s') (u_id user) = Some user
              \<and> u_username user = iu_username userData \<and> u_role user = Field
              \<and> u_teamId user = Some teamId))"
proof (intro conjI impI)
  assume "FileStorage_getTeam s teamId = None
            \<or> (\<exists>team. FileStorage_getTeam s teamId = Some team \<and> tm_status team \<noteq> ''Approved'')"
  then show "\<exists>msg. post_api_users hash s userData = (Failure 400 msg, s)"
    using assms
    by (auto simp: post_api_users_def truthy_def FileStorage_getTeam_def split: if_splits)
next
  let ?u = "userData\<lparr>iu_password := hash (iu_password userData)\<rparr>"
  assume "\<exists>team. FileStorage_getTeam s teamId = Some team \<and> tm_status team = ''Approved''"
  then obtain team where t: "FileStorage_getTeam s teamId = Some team" "tm_status team = ''Approved''"
    by blast
  then have valid: "isValidObjectId teamId"
    by (simp add: FileStorage_getTeam_def split: if_splits)
  have run: "post_api_users hash s userData =
      (Success 201 (fst (FileStorage_createUser s ?u)), snd (FileStorage_createUser s ?u))"
    using assms t valid by (simp add: post_api_users_def truthy_def Let_def case_prod_beta)
  have team: "u_teamId (fst (FileStorage_createUser s ?u)) = Some teamId"
    using assms by (simp add: FileStorage_createUser_fields toString_or_undefined_def truthy_def)
  show "\<exists>user s'. post_api_users hash s userData = (Success 201 user, s')
              \<and> (user, s') = FileStorage_createUser s ?u
              \<and> map_get (fs_users s') (u_id user) = Some user
              \<and> u_username user = iu_username userData \<and> u_role user = Field
              \<and> u_teamId user = Some teamId"
    using run team assms(1) FileStorage_createUser_stores [of s ?u]
    by (intro exI [of _ "fst (FileStorage_createUser s ?u)"] exI [of _ "snd (FileStorage_createUser s ?u)"])
      (simp add: FileStorage_createUser_fields)
qed

lemma ex_field_input_facts:
  "iu_role ex_field_input = Field" "iu_teamId ex_field_input = Some ex_teamId" "ex_teamId \<noteq> []"
  by (simp_all add: ex_field_input_def ex_teamId_def)

lemma ex_fs_teams:
  "FileStorage_getTeam ex_fs_pending ex_teamId = Some ex_team"
  "tm_status ex_team = ''Pending''"
  "FileStorage_getTeam ex_fs_approved ex_teamId = Some (ex_team\<lparr>tm_status := ''Approved''\<rparr>)"
  by (simp_all add: FileStorage_getTeam_def ex_ids_valid ex_fs_pending_def ex_fs_approved_def
      ex_team_def map_get_def)

theorem post_api_users_checks_team_witness:
  "iu_role ex_field_input = Field \<and> iu_teamId ex_field_input = Some ex_teamId \<and> ex_teamId \<noteq> []
   \<and> FileStorage_getTeam ex_fs_pending ex_teamId = Some ex_team \<and> tm_status ex_team = ''Pending''
   \<and> (\<exists>msg. post_api_users (\<lambda>p. ''#'' @ p) ex_fs_pending ex_field_input = (Failure 400 msg, ex_fs_pending))
   \<and> FileStorage_getTeam ex_fs_approved ex_teamId = Some (ex_team\<lparr>tm_status := ''Approved''\<rparr>)
   \<and> (\<exists>user s'. post_api_users (\<lambda>p. ''#'' @ p) ex_fs_approved ex_field_input = (Success 201 user, s')
         \<and> map_get (fs_users s') (u_id user) = Some user \<and> u_teamId user = Some ex_teamId)"
proof -
  have p: "tm_status ex_team \<noteq> ''Approved''"
    by (simp add: ex_team_def)
  have a: "tm_status (ex_team\<lparr>tm_status := ''Approved''\<rparr>) = ''Approved''"
    by simp
  from post_api_users_checks_team [OF ex_field_input_facts, of ex_fs_pending "\<lambda>p. ''#'' @ p"]
    ex_fs_teams(1) p
  have bad: "\<exists>msg. post_api_users (\<lambda>p. ''#'' @ p) ex_fs_pending ex_field_input = (Failure 400 msg, ex_fs_pending)"
    by blast
  from post_api_users_checks_team [OF ex_field_input_facts, of ex_fs_approved "\<lambda>p. ''#'' @ p"]
    ex_fs_teams(3) a
  have good: "\<exists>user s'. post_api_users (\<lambda>p. ''#'' @ p) ex_fs_approved ex_field_input = (Success 201 user, s')
         \<and> map_get (fs_users s') (u_id user) = Some user \<and> u_teamId user = Some ex_teamId"
    by blast
  show ?thesis
    using ex_field_input_facts ex_fs_teams bad good by blast
qed

text \<open>
  \<open>createUser\<close> itself checks nothing: called with a field user whose team is
  \<open>Pending\<close>, it stores the user.
\<close>

theorem createUser_unchecked_team_counterexample:
  "iu_role ex_field_input = Field \<and> iu_teamId ex_field_input = Some ex_teamId
   \<and> FileStorage_getTeam ex_fs_pending ex_teamId = Some ex_team \<and> tm_status ex_team = ''Pending''
   \<and> u_id (fst (FileStorage_createUser ex_fs_pending ex_field_input)) = ''6553f1007fffff7fff7fffff''
   \<and> FileStorage_getUser (snd (FileStorage_createUser ex_fs_pending ex_field_input))
        ''6553f1007fffff7fff7fffff'' = Some (fst (FileStorage_createUser ex_fs_pending ex_field_input))
   \<and> u_role (fst (FileStorage_createUser ex_fs_pending ex_field_input)) = Field
   \<and> u_teamId (fst (FileStorage_createUser ex_fs_pending ex_field_input)) = Some ex_teamId"
proof -
  have rt: "fs_rt ex_fs_pending = ex_rt"
    by (simp add: ex_fs_pending_def ex_fs_def)
  have i: "u_id (fst (FileStorage_createUser ex_fs_pending ex_field_input)) = ''6553f1007fffff7fff7fffff''"
    by (simp add: FileStorage_createUser_fields rt ex_rt_next_id)
  have v: "isValidObjectId ''6553f1007fffff7fff7fffff''"
    by (simp add: isValidObjectId_def is_hex_char_def)
  have g: "FileStorage_getUser (snd (FileStorage_createUser ex_fs_pending ex_field_input))
        ''6553f1007fffff7fff7fffff'' = Some (fst (FileStorage_createUser ex_fs_pending ex_field_input))"
    using FileStorage_createUser_stores [of ex_fs_pending ex_field_input] v
    by (simp add: FileStorage_getUser_def i)
  have t: "u_teamId (fst (FileStorage_createUser ex_fs_pending ex_field_input)) = Some ex_teamId"
    by (simp add: FileStorage_createUser_fields toString_or_undefined_def truthy_def
        ex_field_input_facts)
  show ?thesis
    using ex_field_input_facts ex_fs_teams i g t
    by (simp add: FileStorage_createUser_fields)
qed

subsection \<open>Tasks\<close>

text \<open>
  Claim C6, as amended. For an existing task, whatever its status, \<open>assignTask\<close> returns
  and stores the task with \<open>assignedTo\<close> the given user, status \<open>Assigned\<close> and
  \<open>updatedAt\<close> the next clock reading, its other fields and the other tasks unchanged:
  in the file backend when the task id and the user id are well-formed, in the in-memory
  backend for every user id. With a malformed id the file backend throws and changes
  nothing.
\<close>

theorem assignTask_forces_assigned:
  "(map_get (fs_tasks s) oid = Some task \<and> isValidObjectId oid \<and> isValidObjectId userId \<longrightarrow>
      fst (FileStorage_assignTask s oid userId) =
        Inr (task\<lparr>t_assignedTo := Some userId, t_status := ''Assigned'',
                   t_updatedAt := date_src (fs_rt s) (date_cnt (fs_rt s))\<rparr>)
      \<and> FileStorage_getTask (snd (FileStorage_assignTask s oid userId)) oid =
        Some (task\<lparr>t_assignedTo := Some userId, t_status := ''Assigned'',
                    t_updatedAt := date_src (fs_rt s) (date_cnt (fs_rt s))\<rparr>)
      \<and> (\<forall>k. k \<noteq> oid \<longrightarrow>
            map_get (fs_tasks (snd (FileStorage_assignTask s oid userId))) k = map_get (fs_tasks s) k))
   \<and> (\<not> isValidObjectId oid \<or> \<not> isValidObjectId userId \<longrightarrow>
      FileStorage_assignTask s oid userId = (Inl (Error ''Invalid task or user ID''), s))
   \<and> (map_get (ms_tasks m) mid = Some mtask \<longrightarrow>
      fst (MemStorage_assignTask m mid muserId) =
        Inr (mtask\<lparr>mt_assignedTo := Some muserId, mt_status := Some ''Assigned'',
                    mt_updatedAt := date_src (ms_rt m) (date_cnt (ms_rt m))\<rparr>)
      \<and> MemStorage_getTask (snd (MemStorage_assignTask m mid muserId)) mid =
        Some (mtask\<lparr>mt_assignedTo := Some muserId, mt_status := Some ''Assigned'',
                     mt_updatedAt := date_src (ms_rt m) (date_cnt (ms_rt m))\<rparr>)
      \<and> (\<forall>k. k \<noteq> mid \<longrightarrow>
            map_get (ms_tasks (snd (MemStorage_assignTask m mid muserId))) k = map_get (ms_tasks m) k))"
  by (auto simp: FileStorage_assignTask_def FileStorage_getTask_def MemStorage_assignTask_def
      MemStorage_getTask_def Date_now_def map_get_set_same map_get_set_other Let_def)

theorem assignTask_forces_assigned_witness:
  "(map_get (fs_tasks ex_fs) ex_taskId = Some ex_task \<and> isValidObjectId ex_taskId \<and> isValidObjectId ex_userId)
   \<and> t_status ex_task = ''In Progress''
   \<and> fst (FileStorage_assignTask ex_fs ex_taskId ex_userId) =
        Inr (ex_task\<lparr>t_assignedTo := Some ex_userId, t_status := ''Assigned'',
                      t_updatedAt := 1700000000000\<rparr>)
   \<and> FileStorage_getTask (snd (FileStorage_assignTask ex_fs ex_taskId ex_userId)) ex_taskId =
        Some (ex_task\<lparr>t_assignedTo := Some ex_userId, t_status := ''Assigned'',
                       t_updatedAt := 1700000000000\<rparr>)
   \<and> \<not> isValidObjectId ''user_000001''
   \<and> FileStorage_assignTask ex_fs ex_taskId ''user_000001'' = (Inl (Error ''Invalid task or user ID''), ex_fs)
   \<and> map_get (ms_tasks ex_ms) ''task_000001'' = Some ex_mtask
   \<and> fst (MemStorage_assignTask ex_ms ''task_000001'' ''user_000001'') =
        Inr (ex_mtask\<lparr>mt_assignedTo := Some ''user_000001'', mt_status := Some ''Assigned'',
                       mt_updatedAt := 1700000000000\<rparr>)
   \<and> MemStorage_getTask (snd (MemStorage_assignTask ex_ms ''task_000001'' ''user_000001'')) ''task_000001'' =
        Some (ex_mtask\<lparr>mt_assignedTo := Some ''user_000001'', mt_status := Some ''Assigned'',
                        mt_updatedAt := 1700000000000\<rparr>)"
proof -
  have f: "map_get (fs_tasks ex_fs) ex_taskId = Some ex_task"
    by (simp add: ex_fs_def map_get_def)
  have m: "map_get (ms_tasks ex_ms) ''task_000001'' = Some ex_mtask"
    by (simp add: ex_ms_def map_get_def)
  have p: "t_status ex_task = ''In Progress''"
    by (simp add: ex_task_def)
  have t: "date_src (fs_rt ex_fs) (date_cnt (fs_rt ex_fs)) = 1700000000000"
    "date_src (ms_rt ex_ms) (date_cnt (ms_rt ex_ms)) = 1700000000000"
    by (simp_all add: ex_fs_def ex_ms_def ex_rt_def)
  note good = assignTask_forces_assigned
    [of ex_fs ex_taskId ex_task ex_userId ex_ms "''task_000001''" ex_mtask "''user_000001''"]
  note bad = assignTask_forces_assigned
    [of ex_fs ex_taskId ex_task "''user_000001''" ex_ms "''task_000001''" ex_mtask "''user_000001''"]
  have b: "FileStorage_assignTask ex_fs ex_taskId ''user_000001'' = (Inl (Error ''Invalid task or user ID''), ex_fs)"
    using bad mem_id_malformed by blast
  show ?thesis
    using good f m p b ex_ids_valid(1,2) mem_id_malformed unfolding t by blast
qed

text \<open>
  In the file backend an existing task is not assigned to a user whose id is not of the
  24-hex format: the call throws, and the task keeps its status and has no assignee.
\<close>

theorem assignTask_malformed_assignee_counterexample:
  "FileStorage_getTask ex_fs ex_taskId = Some ex_task
   \<and> FileStorage_assignTask ex_fs ex_taskId ''user_000001'' = (Inl (Error ''Invalid task or user ID''), ex_fs)
   \<and> t_status ex_task = ''In Progress'' \<and> t_assignedTo ex_task = None"
  by (simp add: FileStorage_getTask_def FileStorage_assignTask_def ex_ids_valid mem_id_malformed
      ex_fs_def ex_task_def map_get_def)

text \<open>
  Status changes and audit records. The in-memory \<open>updateTaskStatus\<close> leaves the
  collection of task updates as it is; the file backend's stores one record with the
  task id, the user id, the old and the new status and the comment, and appends it when
  the generated id is new; when it throws, it has changed nothing.
\<close>

lemma MemStorage_updateTaskStatus_no_audit:
  "ms_taskUpdates (snd (MemStorage_updateTaskStatus s oid status userId)) = ms_taskUpdates s"
  by (simp add: MemStorage_updateTaskStatus_def Date_now_def Let_def split: option.splits)

lemma FileStorage_updateTaskStatus_audit:
  assumes "isValidObjectId oid" and "isValidObjectId userId"
    and "map_get (fs_tasks s) oid = Some task"
    and "r1 = snd (Date_now (fs_rt s))"
    and "newId = fst (generateObjectId r1)"
    and "created = fst (Date_now (snd (generateObjectId r1)))"
  shows "fst (FileStorage_updateTaskStatus s oid status userId) =
           Inr (task\<lparr>t_status := status, t_updatedAt := fst (Date_now (fs_rt s))\<rparr>)
         \<and> fs_taskUpdates (snd (FileStorage_updateTaskStatus s oid status userId)) =
             map_set (fs_taskUpdates s) newId
              \<lparr>tu_id = newId, tu_taskId = oid, tu_userId = userId,
               tu_comment = Some (''Status updated to '' @ status),
               tu_oldStatus = Some (t_status task), tu_newStatus = Some status,
               tu_createdAt = created\<rparr>"
  using assms
  by (simp add: FileStorage_updateTaskStatus_def FileStorage_createTaskUpdate_def
      Let_def case_prod_beta)

lemma FileStorage_updateTaskStatus_appends:
  assumes "isValidObjectId oid" and "isValidObjectId userId"
    and "map_get (fs_tasks s) oid = Some task"
    and "fst (generateObjectId (snd (Date_now (fs_rt s)))) \<notin> fst ` set (fs_taskUpdates s)"
  shows "\<exists>u. fs_taskUpdates (snd (FileStorage_updateTaskStatus s oid status userId)) =
               fs_taskUpdates s @ [(tu_id u, u)]
           \<and> tu_taskId u = oid \<and> tu_userId u = userId
           \<and> tu_oldStatus u = Some (t_status task) \<and> tu_newStatus u = Some status
           \<and> tu_comment u = Some (''Status updated to '' @ status)"
  using FileStorage_updateTaskStatus_audit [OF assms(1-3) refl refl refl, of status] assms(4)
  by (simp add: map_set_def update_fresh_append)

lemma FileStorage_updateTaskStatus_failure:
  assumes "fst (FileStorage_updateTaskStatus s oid status userId) = Inl e"
  shows "snd (FileStorage_updateTaskStatus s oid status userId) = s"
proof (cases "isValidObjectId oid \<and> isValidObjectId userId")
  case False
  then show ?thesis
    by (auto simp: FileStorage_updateTaskStatus_def)
next
  case True
  show ?thesis
  proof (cases "map_get (fs_tasks s) oid")
    case None
    with True show ?thesis
      by (simp add: FileStorage_updateTaskStatus_def)
  next
    case (Some task)
    from FileStorage_updateTaskStatus_audit [OF _ _ Some refl refl refl, of userId status] True assms
    show ?thesis by simp
  qed
qed

text \<open>
  Claim C1. A successful \<open>updateTaskStatus\<close> appends one task update with the old and
  the new status. The in-memory backend does not: on a store holding the task
  \<open>task_000001\<close> and no task update, the call succeeds and the collection of task
  updates is still empty.
\<close>

theorem mem_updateTaskStatus_writes_no_audit_record:
  "map_get (ms_tasks ex_ms) ''task_000001'' = Some ex_mtask
   \<and> fst (MemStorage_updateTaskStatus ex_ms ''task_000001'' ''Completed'' ''user_000001'') =
        Inr (ex_mtask\<lparr>mt_status := Some ''Completed'', mt_updatedAt := 1700000000000\<rparr>)
   \<and> ms_taskUpdates ex_ms = []
   \<and> ms_taskUpdates (snd (MemStorage_updateTaskStatus ex_ms ''task_000001'' ''Completed'' ''user_000001'')) = []"
  by (simp add: MemStorage_updateTaskStatus_def MemStorage_getTask_def ex_ms_def ex_rt_def
      Date_now_def Let_def map_get_def)

lemma bulk_apply_count:
  "fst (bulk_apply tasks ids status) = length (filter (\<lambda>i. map_get tasks i \<noteq> None) ids)"
proof (induction ids arbitrary: tasks)
  case Nil
  then show ?case by simp
next
  case (Cons i ids)
  have same: "(\<exists>y. map_get (map_set tasks i v) j = Some y) = (\<exists>y. map_get tasks j = Some y)"
    if "map_get tasks i \<noteq> None" for v j
    using that by (cases "j = i") (simp_all add: map_get_set_same map_get_set_other)
  show ?case
  proof (cases "map_get tasks i")
    case None
    then show ?thesis by (simp add: Cons.IH)
  next
    case (Some task)
    then show ?thesis
      by (simp add: Cons.IH case_prod_beta same)
  qed
qed

lemma bulk_apply_effect:
  "map_get (snd (bulk_apply tasks ids status)) j =
     (if j \<in> set ids then map_option (\<lambda>t. t\<lparr>t_status := status\<rparr>) (map_get tasks j)
      else map_get tasks j)"
proof (induction ids arbitrary: tasks j)
  case Nil
  then show ?case by simp
next
  case (Cons i ids)
  show ?case
  proof (cases "map_get tasks i")
    case None
    then show ?thesis by (auto simp: Cons.IH)
  next
    case (Some task)
    then show ?thesis
      by (cases "j = i") (simp_all add: Cons.IH case_prod_beta map_get_set_same map_get_set_other)
  qed
qed

text \<open>
  Claim C3. \<open>bulkUpdateTaskStatus\<close> checks the format of every id before any mutation:
  with a malformed id among them the call fails and the tasks are unchanged, and so does
  the route handler with status 400, whatever the status in the request. With
  well-formed ids only, each id that resolves to a task has its status set, the other
  tasks are unchanged and the result is the number of mutations, which the handler
  passes on for a non-empty list and a non-empty status.
\<close>

theorem bulkUpdateTaskStatus_all_or_nothing:
  "((\<exists>i \<in> set ids. \<not> isValidObjectId i) \<longrightarrow>
      (\<exists>e. bulkUpdateTaskStatus tasks ids status = (Inl e, tasks))
      \<and> (\<exists>msg. patch_api_tasks_bulk_status tasks (Some ids) req_status = (Failure 400 msg, tasks)))
   \<and> (list_all isValidObjectId ids \<longrightarrow>
      (\<exists>tasks'. bulkUpdateTaskStatus tasks ids status =
          (Inr (length (filter (\<lambda>i. map_get tasks i \<noteq> None) ids)), tasks')
        \<and> (\<forall>j. map_get tasks' j =
              (if j \<in> set ids then map_option (\<lambda>t. t\<lparr>t_status := status\<rparr>) (map_get tasks j)
               else map_get tasks j))
        \<and> (distinct ids \<longrightarrow> length (filter (\<lambda>i. map_get tasks i \<noteq> None) ids) =
              card {i \<in> set ids. map_get tasks i \<noteq> None})
        \<and> (ids \<noteq> [] \<and> status \<noteq> [] \<longrightarrow>
              patch_api_tasks_bulk_status tasks (Some ids) (Some status) =
                (Success 200 (length (filter (\<lambda>i. map_get tasks i \<noteq> None) ids)), tasks'))))"
proof (intro conjI impI)
  assume bad: "\<exists>i \<in> set ids. \<not> isValidObjectId i"
  then show "\<exists>e. bulkUpdateTaskStatus tasks ids status = (Inl e, tasks)"
    by (auto simp: bulkUpdateTaskStatus_def list_all_iff)
  from bad have "filter (\<lambda>i. \<not> isValidObjectId i) ids \<noteq> []" and "ids \<noteq> []"
    by (auto simp: filter_empty_conv)
  then show "\<exists>msg. patch_api_tasks_bulk_status tasks (Some ids) req_status = (Failure 400 msg, tasks)"
    by (simp add: patch_api_tasks_bulk_status_def)
next
  assume ok: "list_all isValidObjectId ids"
  let ?n = "length (filter (\<lambda>i. map_get tasks i \<noteq> None) ids)"
  let ?tasks' = "snd (bulk_apply tasks ids status)"
  have run: "bulkUpdateTaskStatus tasks ids status = (Inr ?n, ?tasks')"
    using ok by (simp add: bulkUpdateTaskStatus_def case_prod_beta bulk_apply_count)
  have none_bad: "filter (\<lambda>i. \<not> isValidObjectId i) ids = []"
    using ok by (simp add: filter_empty_conv list_all_iff)
  have card: "distinct ids \<longrightarrow> ?n = card {i \<in> set ids. map_get tasks i \<noteq> None}"
    by (simp add: distinct_length_filter Int_def conj_commute)
  have handler: "ids \<noteq> [] \<and> status \<noteq> [] \<longrightarrow>
      patch_api_tasks_bulk_status tasks (Some ids) (Some status) = (Success 200 ?n, ?tasks')"
    by (simp add: patch_api_tasks_bulk_status_def truthy_def or_default_def none_bad run)
  show "\<exists>tasks'. bulkUpdateTaskStatus tasks ids status = (Inr ?n, tasks')
        \<and> (\<forall>j. map_get tasks' j =
              (if j \<in> set ids then map_option (\<lambda>t. t\<lparr>t_status := status\<rparr>) (map_get tasks j)
               else map_get tasks j))
        \<and> (distinct ids \<longrightarrow> ?n = card {i \<in> set ids. map_get tasks i \<noteq> None})
        \<and> (ids \<noteq> [] \<and> status \<noteq> [] \<longrightarrow>
              patch_api_tasks_bulk_status tasks (Some ids) (Some status) = (Success 200 ?n, tasks'))"
    using run card handler bulk_apply_effect [of tasks ids status] by blast
qed

lemma ex_bulk_bad: "\<exists>i \<in> set [ex_taskId, ex_userId, ''not-an-id'']. \<not> isValidObjectId i"
  by (simp add: isValidObjectId_def)

lemma ex_bulk_good: "list_all isValidObjectId [ex_taskId, ex_teamId]"
  by (simp add: ex_ids_valid)

theorem bulkUpdateTaskStatus_all_or_nothing_witness:
  "(\<exists>i \<in> set [ex_taskId, ex_userId, ''not-an-id'']. \<not> isValidObjectId i)
   \<and> (\<exists>e. bulkUpdateTaskStatus ex_tasks [ex_taskId, ex_userId, ''not-an-id''] ''Completed'' = (Inl e, ex_tasks))
   \<and> (\<exists>msg. patch_api_tasks_bulk_status ex_tasks (Some [ex_taskId, ex_userId, ''not-an-id''])
          (Some ''Completed'') = (Failure 400 msg, ex_tasks))
   \<and> list_all isValidObjectId [ex_taskId, ex_teamId] \<and> distinct [ex_taskId, ex_teamId]
   \<and> [ex_taskId, ex_teamId] \<noteq> [] \<and> ''Completed'' \<noteq> []
   \<and> length (filter (\<lambda>i. map_get ex_tasks i \<noteq> None) [ex_taskId, ex_teamId]) = 1
   \<and> (\<exists>tasks'. patch_api_tasks_bulk_status ex_tasks (Some [ex_taskId, ex_teamId]) (Some ''Completed'') =
          (Success 200 1, tasks')
        \<and> map_get tasks' ex_taskId = Some (ex_task\<lparr>t_status := ''Completed''\<rparr>)
        \<and> map_get tasks' ex_userId = Some ex_task2)"
proof -
  have d: "distinct [ex_taskId, ex_teamId]" "ex_userId \<notin> set [ex_taskId, ex_teamId]"
      "ex_taskId \<in> set [ex_taskId, ex_teamId]"
    by (simp_all add: ex_taskId_def ex_teamId_def ex_userId_def)
  have g: "map_get ex_tasks ex_taskId = Some ex_task" "map_get ex_tasks ex_userId = Some ex_task2"
     "map_get ex_tasks ex_teamId = None"
    by (simp_all add: ex_tasks_def map_get_def ex_taskId_def ex_teamId_def ex_userId_def)
  have n: "length (filter (\<lambda>i. map_get ex_tasks i \<noteq> None) [ex_taskId, ex_teamId]) = 1"
    by (simp add: g)
  from bulkUpdateTaskStatus_all_or_nothing
    [of "[ex_taskId, ex_userId, ''not-an-id'']" ex_tasks "''Completed''" "Some ''Completed''"]
    ex_bulk_bad
  have bad: "\<exists>e. bulkUpdateTaskStatus ex_tasks [ex_taskId, ex_userId, ''not-an-id''] ''Completed'' = (Inl e, ex_tasks)"
     "\<exists>msg. patch_api_tasks_bulk_status ex_tasks (Some [ex_taskId, ex_userId, ''not-an-id''])
          (Some ''Completed'') = (Failure 400 msg, ex_tasks)"
    by blast+
  from bulkUpdateTaskStatus_all_or_nothing [of "[ex_taskId, ex_teamId]" ex_tasks "''Completed''"]
    ex_bulk_good
  obtain tasks' where
    h: "patch_api_tasks_bulk_status ex_tasks (Some [ex_taskId, ex_teamId]) (Some ''Completed'') =
          (Success 200 (length (filter (\<lambda>i. map_get ex_tasks i \<noteq> None) [ex_taskId, ex_teamId])), tasks')"
    and e: "\<And>j. map_get tasks' j =
              (if j \<in> set [ex_taskId, ex_teamId]
               then map_option (\<lambda>t. t\<lparr>t_status := ''Completed''\<rparr>) (map_get ex_tasks j)
               else map_get ex_tasks j)"
    by auto
  have "map_get tasks' ex_taskId = Some (ex_task\<lparr>t_status := ''Completed''\<rparr>)"
    using e [of ex_taskId] d(3) g(1) by simp
  moreover have "map_get tasks' ex_userId = Some ex_task2"
    using e [of ex_userId] d(2) g(2) by simp
  ultimately show ?thesis
    using ex_bulk_bad bad ex_bulk_good d(1) n h unfolding n by auto
qed

end
